theory Spec2Isabelle
  imports Complex_Main "HOL-Library.Sublist" "HOL-Library.AList"
begin

section \<open>Strings and the path library\<close>

text \<open>
  JavaScript strings are modelled as \<open>string\<close>. The user-visible texts of the
  extension are Chinese literals; they are modelled by the constructors of the
  datatype \<open>uitext\<close> below, one constructor for each literal of the source.

  The extension runs on Windows (it spawns \<open>cmd\<close>, \<open>taskkill\<close> and \<open>Build.bat\<close>),
  so \<open>path\<close> is Node's \<open>path.win32\<close>. That module is library code and not part
  of the repository; the functions \<open>dirname\<close>, \<open>basename\<close>, \<open>normalize\<close> and
  \<open>path_join\<close> below follow the algorithms of Node's \<open>lib/path.js\<close>, written
  over lists instead of index loops.
\<close>

definition bslash :: char where
  "bslash = CHR 0x5C"

definition dquote :: char where
  "dquote = CHR 0x22"

text \<open>\<open>win\<close> writes a Windows path with forward slashes: \<open>win ''C:/Proj''\<close> is \<open>C:\Proj\<close>.\<close>

definition win :: "string \<Rightarrow> string" where
  "win = map (\<lambda>c. if c = CHR ''/'' then bslash else c)"

definition isPathSeparator :: "char \<Rightarrow> bool" where
  "isPathSeparator c = (c = CHR ''/'' \<or> c = bslash)"

definition isWindowsDeviceRoot :: "char \<Rightarrow> bool" where
  "isWindowsDeviceRoot c =
     (let code = (of_char c :: nat) in (65 \<le> code \<and> code \<le> 90) \<or> (97 \<le> code \<and> code \<le> 122))"

definition endsWith :: "string \<Rightarrow> string \<Rightarrow> bool" where
  "endsWith s e = (length e \<le> length s \<and> drop (length s - length e) s = e)"

fun str_includes :: "string \<Rightarrow> string \<Rightarrow> bool" where
  "str_includes [] sub = (sub = [])"
| "str_includes (c # cs) sub = (take (length sub) (c # cs) = sub \<or> str_includes cs sub)"

text \<open>
  The root of a Windows path, as \<open>dirname\<close> and \<open>normalize\<close> look for it: a UNC
  root \<open>\\server\share\<close>, a single leading separator, or a drive \<open>X:\<close> with or
  without a separator after it.
\<close>

datatype unc = NoUnc | UncOnly string string | UncRoot string string nat

definition unc_root :: "string \<Rightarrow> unc" where
  "unc_root p =
     (let r = drop 2 p;
          server = takeWhile (\<lambda>c. \<not> isPathSeparator c) r;
          r1 = dropWhile (\<lambda>c. \<not> isPathSeparator c) r;
          r2 = dropWhile isPathSeparator r1;
          share = takeWhile (\<lambda>c. \<not> isPathSeparator c) r2;
          r3 = dropWhile (\<lambda>c. \<not> isPathSeparator c) r2
      in if server = [] \<or> r1 = [] then NoUnc
         else if r2 = [] then NoUnc
         else if r3 = [] then UncOnly server share
         else UncRoot server share (length p - length r3))"

definition dirname :: "string \<Rightarrow> string" where
  "dirname p =
     (if p = [] then ''.''
      else if length p = 1 then (if isPathSeparator (hd p) then p else ''.'')
      else
        let unc = (if isPathSeparator (p ! 0) \<and> isPathSeparator (p ! 1) then unc_root p else NoUnc)
        in case unc of
             UncOnly server share \<Rightarrow> p
           | _ \<Rightarrow>
            (let rootEnd =
                   (if isPathSeparator (p ! 0)
                    then (case unc of UncRoot server share j \<Rightarrow> Some (j + 1) | _ \<Rightarrow> Some 1)
                    else if isWindowsDeviceRoot (p ! 0) \<and> p ! 1 = CHR '':''
                    then (if length p > 2 \<and> isPathSeparator (p ! 2) then Some 3 else Some 2)
                    else None);
                 offset = (case rootEnd of None \<Rightarrow> 0 | Some k \<Rightarrow> k);
                 r1 = dropWhile isPathSeparator (rev (drop offset p));
                 r2 = dropWhile (\<lambda>c. \<not> isPathSeparator c) r1
             in if r2 = []
                then (case rootEnd of None \<Rightarrow> ''.'' | Some k \<Rightarrow> take k p)
                else take (offset + length r2 - 1) p))"

definition basename :: "string \<Rightarrow> string \<Rightarrow> string" where
  "basename p ext =
     (let start = (if length p \<ge> 2 \<and> isWindowsDeviceRoot (p ! 0) \<and> p ! 1 = CHR '':'' then 2 else 0 :: nat);
          r1 = dropWhile isPathSeparator (rev (drop start p));
          comp = rev (takeWhile (\<lambda>c. \<not> isPathSeparator c) r1)
      in if ext \<noteq> [] \<and> length ext \<le> length p
         then
           if ext = p then []
           else if r1 = [] then drop start p
           else if endsWith comp ext
           then (if comp = ext then comp else take (length comp - length ext) comp)
           else if endsWith ext comp
           then comp @ takeWhile isPathSeparator (rev (drop start p))
           else comp
         else comp)"

fun split_segments :: "string \<Rightarrow> string \<Rightarrow> string list" where
  "split_segments [] cur = [rev cur]"
| "split_segments (c # cs) cur =
     (if isPathSeparator c then rev cur # split_segments cs [] else split_segments cs (c # cur))"

fun normalize_segments :: "bool \<Rightarrow> string list \<Rightarrow> string list \<Rightarrow> string list" where
  "normalize_segments allowAboveRoot [] res = rev res"
| "normalize_segments allowAboveRoot (seg # segs) res =
     (if seg = [] \<or> seg = ''.'' then normalize_segments allowAboveRoot segs res
      else if seg = ''..'' then
        (if res \<noteq> [] \<and> hd res \<noteq> ''..'' then normalize_segments allowAboveRoot segs (tl res)
         else if allowAboveRoot then normalize_segments allowAboveRoot segs (''..'' # res)
         else normalize_segments allowAboveRoot segs res)
      else normalize_segments allowAboveRoot segs (seg # res))"

fun intercalate :: "string \<Rightarrow> string list \<Rightarrow> string" where
  "intercalate sep [] = []"
| "intercalate sep [x] = x"
| "intercalate sep (x # y # ys) = x @ sep @ intercalate sep (y # ys)"

definition normalizeString :: "string \<Rightarrow> bool \<Rightarrow> string" where
  "normalizeString p allowAboveRoot =
     intercalate [bslash] (normalize_segments allowAboveRoot (split_segments p []) [])"

definition normalize :: "string \<Rightarrow> string" where
  "normalize p =
     (if p = [] then ''.''
      else if length p = 1 then (if p = ''/'' then [bslash] else p)
      else
        let unc = (if isPathSeparator (p ! 0) \<and> isPathSeparator (p ! 1) then unc_root p else NoUnc)
        in case unc of
             UncOnly server share \<Rightarrow> [bslash, bslash] @ server @ [bslash] @ share @ [bslash]
           | _ \<Rightarrow>
            (let isAbsolute = (isPathSeparator (p ! 0) \<or>
                   (isWindowsDeviceRoot (p ! 0) \<and> p ! 1 = CHR '':'' \<and> length p > 2 \<and> isPathSeparator (p ! 2)));
                 device =
                   (if isPathSeparator (p ! 0)
                    then (case unc of UncRoot server share j \<Rightarrow> Some ([bslash, bslash] @ server @ [bslash] @ share)
                          | _ \<Rightarrow> None)
                    else if isWindowsDeviceRoot (p ! 0) \<and> p ! 1 = CHR '':'' then Some (take 2 p)
                    else None);
                 rootEnd =
                   (if isPathSeparator (p ! 0)
                    then (case unc of UncRoot server share j \<Rightarrow> j
                          | _ \<Rightarrow> if isPathSeparator (p ! 1) then 0 else 1)
                    else if isWindowsDeviceRoot (p ! 0) \<and> p ! 1 = CHR '':''
                    then (if length p > 2 \<and> isPathSeparator (p ! 2) then 3 else 2)
                    else 0);
                 tail0 = (if rootEnd < length p then normalizeString (drop rootEnd p) (\<not> isAbsolute) else []);
                 tail1 = (if tail0 = [] \<and> \<not> isAbsolute then ''.'' else tail0);
                 tail2 = (if tail1 \<noteq> [] \<and> isPathSeparator (last p) then tail1 @ [bslash] else tail1)
             in case device of
                  None \<Rightarrow> (if isAbsolute then bslash # tail2 else tail2)
                | Some d \<Rightarrow> (if isAbsolute then d @ [bslash] @ tail2 else d @ tail2)))"

definition path_join :: "string list \<Rightarrow> string" where
  "path_join args =
     (case filter (\<lambda>a. a \<noteq> []) args of
        [] \<Rightarrow> ''.''
      | firstPart # more \<Rightarrow>
          let joined = intercalate [bslash] (firstPart # more);
              needsReplace =
                \<not> (length firstPart > 2 \<and> isPathSeparator (firstPart ! 0) \<and>
                   isPathSeparator (firstPart ! 1) \<and> \<not> isPathSeparator (firstPart ! 2));
              slashCount = length (takeWhile isPathSeparator joined)
          in normalize (if needsReplace \<and> slashCount \<ge> 2 then bslash # drop slashCount joined else joined))"

section \<open>ConfigManager\<close>

record BuildConfig =
  uePath :: string
  projectPath :: string
  buildConfiguration :: string

text \<open>
  The literals of the source, by their meaning. The four validation errors are
  the texts of \<open>validateConfig\<close> (configManager.ts, lines 54, 58, 62, 66).
\<close>

datatype uitext =
    UEPathNotSet | UEPathNotFound | ProjectPathNotSet | ProjectPathNotFound
  | ValidationFailed | OperationInProgress | OperationCancelled
  | CleanDone | CleanFailed | RegenerateDone | GenerateDone | OperationFailed
  | DebugLaunched | ProjectLaunched | LaunchFailed
  | ProjectPathUnsetOrMissing | UEPathUnsetOrMissing
  | Cleaning | DeletingIntermediate | DeletingBinaries | DeletingStagedBuilds
  | GeneratingProjectFiles | Compiling | Linking | Generating | Processing
  | LaunchingDebug | LaunchingProject

record validation =
  valid :: bool
  error :: "uitext option"

text \<open>\<open>fs.existsSync\<close>: the file system is the set of the paths that exist.\<close>

definition existsSync :: "string set \<Rightarrow> string \<Rightarrow> bool" where
  "existsSync files p = (p \<in> files)"

definition validateConfig :: "string set \<Rightarrow> BuildConfig \<Rightarrow> validation" where
  "validateConfig files c =
     (if uePath c = [] then \<lparr>valid = False, error = Some UEPathNotSet\<rparr>
      else if \<not> existsSync files (uePath c) then \<lparr>valid = False, error = Some UEPathNotFound\<rparr>
      else if projectPath c = [] then \<lparr>valid = False, error = Some ProjectPathNotSet\<rparr>
      else if \<not> existsSync files (projectPath c) then \<lparr>valid = False, error = Some ProjectPathNotFound\<rparr>
      else \<lparr>valid = True, error = None\<rparr>)"

definition getProjectDir :: "BuildConfig \<Rightarrow> string" where
  "getProjectDir c = dirname (projectPath c)"

definition getProjectName :: "BuildConfig \<Rightarrow> string" where
  "getProjectName c = basename (projectPath c) ''.uproject''"

definition getSolutionPath :: "BuildConfig \<Rightarrow> string" where
  "getSolutionPath c =
     (let projectDir = getProjectDir c; projectName = getProjectName c
      in path_join [projectDir, projectName @ ''.sln''])"

definition getUEEngineDir :: "BuildConfig \<Rightarrow> string" where
  "getUEEngineDir c = dirname (uePath c)"

definition getUBTPath :: "BuildConfig \<Rightarrow> string" where
  "getUBTPath c =
     (let ueEnginePath = uePath c;
          engineRootDir = dirname (dirname (dirname (dirname ueEnginePath)))
      in path_join [engineRootDir, ''Engine'', ''Build'', ''BatchFiles'', ''Build.bat''])"

section \<open>Messages, errors and effects\<close>

text \<open>
  The message of a JavaScript error. \<open>ExitMessage code stderr\<close> is the template
  of \<open>_executeProcess\<close> (the exit code, a line break, the captured stderr text);
  \<open>BatNotFoundMessage path\<close> is \<open>Build.bat not found at: path\<close>;
  \<open>UEPathMessage\<close> is the literal thrown by \<open>startDebug\<close> before the launch.
  \<open>ForeignError message str\<close> is an error object of the runtime (a rejected
  \<open>fs.promises.rm\<close>, a throwing \<open>fs.unlinkSync\<close>, the \<open>error\<close> event of a
  child process) with its \<open>message\<close> and its \<open>String(error)\<close>.
\<close>

datatype message_text =
    ExitMessage "int option" string
  | BatNotFoundMessage string
  | UEPathMessage
  | Verbatim string

datatype jserror = Error message_text | ForeignError string string

text \<open>\<open>error.message || String(error)\<close>\<close>

fun errorMessage :: "jserror \<Rightarrow> message_text" where
  "errorMessage (Error t) = t"
| "errorMessage (ForeignError m str) = Verbatim (if m = [] then str else m)"

text \<open>
  The messages posted to the webview. JavaScript numbers are modelled by
  rationals: the progress values are small integers, or the quotient of the
  time-based estimate, which is computed exactly here and rounded to a double in
  the source.
\<close>

datatype message =
    Update string string string
  | BuildStarted | BuildProgress rat uitext | BuildSuccess | BuildFailed message_text | BuildCancelled
  | DebugStarted | DebugSuccess | DebugFailed message_text | DebugCancelled

text \<open>
  What a manager does to the world, in the order it does it. \<open>Rm path h\<close> starts
  \<open>fs.promises.rm(path, {recursive, force, maxRetries: 3})\<close> with promise \<open>h\<close>;
  \<open>Exec command cwd h\<close> and \<open>Spawn executable args cwd h\<close> start the child process
  \<open>h\<close>; \<open>Taskkill h\<close> spawns \<open>taskkill /F /T /PID\<close> for it;
  \<open>SpawnDetached command cwd\<close> is the detached \<open>cmd /c command\<close> of \<open>startDebug\<close>
  and \<open>ExecLaunch command cwd\<close> the fire-and-forget \<open>exec\<close> of
  \<open>startWithoutDebug\<close> and \<open>launchProject\<close>. The output channel is a write-only
  log and is left out.
\<close>

datatype action =
    PostMessage message
  | ShowWarningMessage uitext
  | ShowErrorMessage uitext
  | ShowInformationMessage uitext
  | Rm string nat
  | UnlinkSync string
  | Exec string string nat
  | Spawn string "string list" string nat
  | Taskkill nat
  | SpawnDetached string string
  | ExecLaunch string string

section \<open>The state of the three managers\<close>

text \<open>
  An \<open>async\<close> method runs until its next \<open>await\<close> of a pending promise and
  resumes when the promise settles, so a method in flight is the continuation
  stored with the promise it awaits. \<open>rmcont\<close> are the continuations of
  \<open>BuildManager\<close> behind a directory removal, \<open>bcont\<close> those behind a child
  process, \<open>dcont\<close> those of \<open>DebugManager\<close>; each holds the local constants
  the rest of the method reads (\<open>config\<close>, \<open>projectDir\<close>, \<open>solutionPath\<close>).
\<close>

datatype rmcont =
    CleanIntermediateK string
  | CleanBinariesK string
  | CleanStagedK
  | RegenIntermediateK BuildConfig string string
  | RegenBinariesK BuildConfig string string
  | RegenStagedK BuildConfig string

datatype bcont = GenerateSolutionK | RegenerateGenerateK BuildConfig | RegenerateBuildK

datatype dcont = StartDebugK BuildConfig string | StartWithoutDebugK BuildConfig string

text \<open>The variables of one call of \<open>BuildManager._executeProcess\<close>.\<close>

record bproc =
  b_stdout :: string
  b_stderr :: string
  b_currentProgress :: rat
  b_startTime :: nat
  b_waiting :: "bcont option"

text \<open>The variables of one call of \<open>DebugManager._executeProcess\<close>.\<close>

record dproc =
  d_stdout :: string
  d_stderr :: string
  d_currentProgress :: rat
  d_waiting :: "dcont option"

text \<open>
  \<open>config\<close> and \<open>c_view\<close> are the fields of \<open>ConfigManager\<close>; \<open>isBuilding\<close>,
  \<open>buildProcess\<close>, \<open>b_view\<close> those of \<open>BuildManager\<close>, with its pending
  removals \<open>b_rms\<close> and child processes \<open>b_procs\<close>; \<open>isDebugging\<close>,
  \<open>debugProcess\<close>, \<open>d_view\<close>, \<open>d_procs\<close> those of \<open>DebugManager\<close>. The
  environment is the set \<open>files\<close> of existing paths, the paths on which
  \<open>fs.unlinkSync\<close> throws (\<open>unlink_errors\<close>), the clock \<open>now\<close> in milliseconds
  and the next fresh handle \<open>next_id\<close>. \<open>trace\<close> records the actions.
\<close>

record sys =
  config :: BuildConfig
  c_view :: bool
  files :: "string set"
  unlink_errors :: "(string \<times> jserror) list"
  now :: nat
  next_id :: nat
  isBuilding :: bool
  buildProcess :: "nat option"
  b_view :: bool
  b_rms :: "(nat \<times> string \<times> rmcont) list"
  b_procs :: "(nat \<times> bproc) list"
  isDebugging :: bool
  debugProcess :: "nat option"
  d_view :: bool
  d_procs :: "(nat \<times> dproc) list"
  trace :: "action list"

definition effect :: "action \<Rightarrow> sys \<Rightarrow> sys" where
  "effect a s = s\<lparr>trace := trace s @ [a]\<rparr>"

text \<open>\<open>Partial<BuildConfig>\<close>\<close>

record PartialConfig =
  p_uePath :: "string option"
  p_projectPath :: "string option"
  p_buildConfiguration :: "string option"

definition sendConfigToWebview :: "sys \<Rightarrow> sys" where
  "sendConfigToWebview s =
     (if c_view s
      then effect (PostMessage (Update (uePath (config s)) (projectPath (config s))
                                       (buildConfiguration (config s)))) s
      else s)"

definition updateConfig :: "PartialConfig \<Rightarrow> sys \<Rightarrow> sys" where
  "updateConfig p s =
     (let c = config s;
          c = (case p_uePath p of None \<Rightarrow> c | Some v \<Rightarrow> c\<lparr>uePath := v\<rparr>);
          c = (case p_projectPath p of None \<Rightarrow> c | Some v \<Rightarrow> c\<lparr>projectPath := v\<rparr>);
          c = (case p_buildConfiguration p of None \<Rightarrow> c | Some v \<Rightarrow> c\<lparr>buildConfiguration := v\<rparr>)
      in sendConfigToWebview (s\<lparr>config := c\<rparr>))"

text \<open>A thrown error, with the state at the throw, or the state after a normal return.\<close>

type_synonym outcome = "jserror \<times> sys + sys"

definition try_catch :: "outcome \<Rightarrow> (jserror \<Rightarrow> sys \<Rightarrow> sys) \<Rightarrow> sys" where
  "try_catch r handler = (case r of Inl (e, s) \<Rightarrow> handler e s | Inr s \<Rightarrow> s)"

definition unlinkSync :: "string \<Rightarrow> sys \<Rightarrow> outcome" where
  "unlinkSync p s =
     (let s = effect (UnlinkSync p) s
      in case map_of (unlink_errors s) p of
           Some e \<Rightarrow> Inl (e, s)
         | None \<Rightarrow> Inr (s\<lparr>files := files s - {p}\<rparr>))"

text \<open>\<open>fs.promises.rm\<close> is started and the caller awaits it with continuation \<open>k\<close>.\<close>

definition rm :: "string \<Rightarrow> rmcont \<Rightarrow> sys \<Rightarrow> sys" where
  "rm p k s =
     (let h = next_id s;
          s = s\<lparr>next_id := h + 1\<rparr>;
          s = effect (Rm p h) s
      in s\<lparr>b_rms := (h, p, k) # b_rms s\<rparr>)"

definition is_under :: "string \<Rightarrow> string \<Rightarrow> bool" where
  "is_under dir q = (q = dir \<or> prefix (dir @ [bslash]) q)"

section \<open>Progress parsing\<close>

definition is_digit :: "char \<Rightarrow> bool" where
  "is_digit c = (let code = (of_char c :: nat) in 48 \<le> code \<and> code \<le> 57)"

text \<open>\<open>parseInt(digits, 10)\<close> on a non-empty run of digits, without the rounding of doubles.\<close>

definition parseInt :: "string \<Rightarrow> nat" where
  "parseInt ds = foldl (\<lambda>acc c. acc * 10 + (of_char c - 48)) 0 ds"

text \<open>
  \<open>text.match(/(\d+)%/)\<close>: the leftmost match starts at the first maximal run of
  digits that a percent sign follows, and the group is the whole run.
\<close>

function match_percent :: "string \<Rightarrow> string option" where
  "match_percent [] = None"
| "match_percent (c # cs) =
     (if is_digit c
      then (case dropWhile is_digit cs of
              d # rest \<Rightarrow> if d = CHR ''%'' then Some (c # takeWhile is_digit cs)
                         else match_percent rest
            | [] \<Rightarrow> None)
      else match_percent cs)"
  by pat_completeness auto
termination
proof (relation "measure length")
  fix c :: char and cs :: string and d :: char and rest :: string
  assume "dropWhile is_digit cs = d # rest"
  then have "length (d # rest) \<le> length cs"
    by (metis length_dropWhile_le)
  then show "(rest, c # cs) \<in> measure length" by simp
qed auto

definition parseProgress :: "string \<Rightarrow> nat" where
  "parseProgress t = (case match_percent t of Some ds \<Rightarrow> parseInt ds | None \<Rightarrow> 0)"

definition getProgressMessage :: "string \<Rightarrow> uitext" where
  "getProgressMessage t =
     (if str_includes t ''Compiling'' then Compiling
      else if str_includes t ''Linking'' then Linking
      else if str_includes t ''Generating'' then Generating
      else Processing)"

section \<open>BuildManager\<close>

definition b_postMessage :: "message \<Rightarrow> sys \<Rightarrow> sys" where
  "b_postMessage m s = (if b_view s then effect (PostMessage m) s else s)"

definition cancelBuild :: "sys \<Rightarrow> sys" where
  "cancelBuild s =
     (case buildProcess s of
        None \<Rightarrow> s
      | Some pid \<Rightarrow>
          let s = effect (Taskkill pid) s;
              s = s\<lparr>isBuilding := False\<rparr>;
              s = s\<lparr>buildProcess := None\<rparr>;
              s = b_postMessage BuildCancelled s
          in effect (ShowInformationMessage OperationCancelled) s)"

text \<open>
  \<open>_executeProcess\<close> up to the return of its promise: the child is started, the
  handle stored, and the caller awaits the promise with continuation \<open>k\<close>.
\<close>

definition quote_arg :: "string \<Rightarrow> string" where
  "quote_arg arg = (if CHR '' '' \<in> set arg then [dquote] @ arg @ [dquote] else arg)"

definition bat_command :: "string \<Rightarrow> string list \<Rightarrow> string" where
  "bat_command executable args =
     (let quotedExecutable = [dquote] @ executable @ [dquote];
          quotedArgs = map quote_arg args
      in quotedExecutable @ '' '' @ intercalate '' '' quotedArgs)"

text \<open>
  A batch file is run through \<open>exec\<close> with a command line, anything else
  through \<open>spawn\<close> with the argument list.
\<close>

definition child_start :: "string \<Rightarrow> string list \<Rightarrow> string \<Rightarrow> nat \<Rightarrow> action" where
  "child_start executable args cwd h =
     (if endsWith executable ''.bat'' then Exec (bat_command executable args) cwd h
      else Spawn executable args cwd h)"

definition b_executeProcess :: "string \<Rightarrow> string list \<Rightarrow> string \<Rightarrow> bcont \<Rightarrow> sys \<Rightarrow> sys" where
  "b_executeProcess executable args cwd k s =
     (let childProcess = next_id s;
          s = s\<lparr>next_id := childProcess + 1\<rparr>;
          s = effect (child_start executable args cwd childProcess) s;
          s = s\<lparr>buildProcess := Some childProcess\<rparr>
      in s\<lparr>b_procs := (childProcess,
             \<lparr>b_stdout = [], b_stderr = [], b_currentProgress = 0, b_startTime = now s,
              b_waiting = Some k\<rparr>) # b_procs s\<rparr>)"

definition estimatedDuration :: rat where
  "estimatedDuration = 300000"

text \<open>The \<open>data\<close> handler of the child's stdout.\<close>

definition b_onStdout :: "nat \<Rightarrow> string \<Rightarrow> sys \<Rightarrow> sys" where
  "b_onStdout h t s =
     (case map_of (b_procs s) h of
        None \<Rightarrow> s
      | Some p0 \<Rightarrow>
          let p = p0\<lparr>b_stdout := b_stdout p0 @ t\<rparr>;
              progress = of_nat (parseProgress t)
          in if progress > b_currentProgress p
             then let p = p\<lparr>b_currentProgress := progress\<rparr>;
                      s = s\<lparr>b_procs := AList.update h p (b_procs s)\<rparr>
                  in b_postMessage (BuildProgress (b_currentProgress p) (getProgressMessage t)) s
             else if b_currentProgress p > 0 \<and> b_currentProgress p < 100
             then let elapsed = of_nat (now s - b_startTime p);
                      estimatedProgress = min 95 (40 + (elapsed / estimatedDuration) * 55)
                  in if estimatedProgress > b_currentProgress p
                     then let p = p\<lparr>b_currentProgress := estimatedProgress\<rparr>;
                              s = s\<lparr>b_procs := AList.update h p (b_procs s)\<rparr>
                          in b_postMessage (BuildProgress (b_currentProgress p) (getProgressMessage t)) s
                     else s\<lparr>b_procs := AList.update h p (b_procs s)\<rparr>
             else s\<lparr>b_procs := AList.update h p (b_procs s)\<rparr>)"

definition b_onStderr :: "nat \<Rightarrow> string \<Rightarrow> sys \<Rightarrow> sys" where
  "b_onStderr h t s =
     (case map_of (b_procs s) h of
        None \<Rightarrow> s
      | Some p \<Rightarrow> s\<lparr>b_procs := AList.update h (p\<lparr>b_stderr := b_stderr p @ t\<rparr>) (b_procs s)\<rparr>)"

text \<open>The \<open>catch\<close> blocks of \<open>cleanSolution\<close> and of \<open>regenerateSolution\<close> and \<open>generateSolution\<close>.\<close>

definition clean_catch :: "jserror \<Rightarrow> sys \<Rightarrow> sys" where
  "clean_catch e s =
     (let s = s\<lparr>isBuilding := False\<rparr>;
          s = s\<lparr>buildProcess := None\<rparr>;
          msg = errorMessage e;
          s = effect (ShowErrorMessage CleanFailed) s
      in b_postMessage (BuildFailed msg) s)"

definition operation_catch :: "jserror \<Rightarrow> sys \<Rightarrow> sys" where
  "operation_catch e s =
     (let s = s\<lparr>isBuilding := False\<rparr>;
          s = s\<lparr>buildProcess := None\<rparr>;
          msg = errorMessage e;
          s = effect (ShowErrorMessage OperationFailed) s
      in b_postMessage (BuildFailed msg) s)"

definition engineRootDir :: "string \<Rightarrow> string" where
  "engineRootDir ueEnginePath = dirname (dirname (dirname (dirname ueEnginePath)))"

definition generateProjectFiles_args :: "string \<Rightarrow> string \<Rightarrow> string list" where
  "generateProjectFiles_args projectName path =
     [projectName @ ''Editor'', ''Win64'', ''Development'',
      ''-Project='' @ [dquote] @ path @ [dquote],
      ''-WaitMutex'', ''-FromMsBuild'', ''-architecture=x64'', ''-GenerateProjectFiles'']"

definition buildProject_args :: "string \<Rightarrow> string \<Rightarrow> string \<Rightarrow> string list" where
  "buildProject_args projectName flavor path =
     [projectName @ ''Editor'', ''Win64'', flavor,
      ''-Project='' @ [dquote] @ path @ [dquote],
      ''-WaitMutex'', ''-FromMsBuild'', ''-architecture=x64'']"

text \<open>
  \<open>_generateProjectFiles\<close> and \<open>_buildProject\<close> up to their \<open>await\<close>. The
  project directory and name are read from the \<open>ConfigManager\<close> at the time of
  the call; the paths and the build flavor from the copy \<open>cfg\<close> the operation
  took when it started.
\<close>

definition b_generateProjectFiles :: "BuildConfig \<Rightarrow> bcont \<Rightarrow> sys \<Rightarrow> outcome" where
  "b_generateProjectFiles cfg k s =
     (let path = projectPath cfg;
          projectDir = getProjectDir (config s);
          projectName = getProjectName (config s);
          ueEnginePath = uePath cfg;
          ubtPath = path_join [engineRootDir ueEnginePath, ''Engine'', ''Build'', ''BatchFiles'', ''Build.bat''];
          s = b_postMessage (BuildProgress 35 GeneratingProjectFiles) s
      in if \<not> existsSync (files s) ubtPath then Inl (Error (BatNotFoundMessage ubtPath), s)
         else Inr (b_executeProcess ubtPath (generateProjectFiles_args projectName path)
                     projectDir k s))"

definition b_buildProject :: "BuildConfig \<Rightarrow> bcont \<Rightarrow> sys \<Rightarrow> outcome" where
  "b_buildProject cfg k s =
     (let path = projectPath cfg;
          projectDir = getProjectDir (config s);
          projectName = getProjectName (config s);
          flavor = buildConfiguration cfg;
          s = b_postMessage (BuildProgress 65 Compiling) s;
          ueEnginePath = uePath cfg;
          buildBatPath = path_join [engineRootDir ueEnginePath, ''Engine'', ''Build'', ''BatchFiles'', ''Build.bat'']
      in if \<not> existsSync (files s) buildBatPath then Inl (Error (BatNotFoundMessage buildBatPath), s)
         else Inr (b_executeProcess buildBatPath
                     (buildProject_args projectName flavor path) projectDir k s))"

text \<open>The rest of an operation after the promise of \<open>_executeProcess\<close> has resolved.\<close>

definition generateSolution_done :: "sys \<Rightarrow> sys" where
  "generateSolution_done s =
     (let s = effect (ShowInformationMessage GenerateDone) s;
          s = s\<lparr>isBuilding := False\<rparr>;
          s = s\<lparr>buildProcess := None\<rparr>
      in b_postMessage BuildSuccess s)"

definition regenerateSolution_done :: "sys \<Rightarrow> sys" where
  "regenerateSolution_done s =
     (let s = effect (ShowInformationMessage RegenerateDone) s;
          s = s\<lparr>isBuilding := False\<rparr>;
          s = s\<lparr>buildProcess := None\<rparr>
      in b_postMessage BuildSuccess s)"

fun b_resume :: "bcont \<Rightarrow> sys \<Rightarrow> sys" where
  "b_resume GenerateSolutionK s =
     generateSolution_done (b_postMessage (BuildProgress 60 GeneratingProjectFiles) s)"
| "b_resume (RegenerateGenerateK cfg) s =
     (let s = b_postMessage (BuildProgress 60 GeneratingProjectFiles) s
      in try_catch (b_buildProject cfg RegenerateBuildK s) operation_catch)"
| "b_resume RegenerateBuildK s =
     regenerateSolution_done (b_postMessage (BuildProgress 100 Compiling) s)"

text \<open>
  The \<open>close\<close> and \<open>error\<close> handlers. A promise settles once: \<open>b_waiting\<close> is
  \<open>None\<close> after the first of them has run. No event of a child follows its
  \<open>close\<close>, so the child leaves the table there.
\<close>

definition b_onClose :: "nat \<Rightarrow> int option \<Rightarrow> sys \<Rightarrow> sys" where
  "b_onClose h code s =
     (case map_of (b_procs s) h of
        None \<Rightarrow> s
      | Some p \<Rightarrow>
          let s = s\<lparr>buildProcess := None\<rparr>;
              s = s\<lparr>b_procs := AList.delete h (b_procs s)\<rparr>
          in case b_waiting p of
               None \<Rightarrow> s
             | Some k \<Rightarrow>
                 if code = Some 0 then b_resume k s
                 else operation_catch (Error (ExitMessage code (b_stderr p))) s)"

definition b_onError :: "nat \<Rightarrow> jserror \<Rightarrow> sys \<Rightarrow> sys" where
  "b_onError h e s =
     (case map_of (b_procs s) h of
        None \<Rightarrow> s
      | Some p \<Rightarrow>
          let s = s\<lparr>buildProcess := None\<rparr>;
              s = s\<lparr>b_procs := AList.update h (p\<lparr>b_waiting := None\<rparr>) (b_procs s)\<rparr>
          in case b_waiting p of
               None \<Rightarrow> s
             | Some k \<Rightarrow> operation_catch e s)"

text \<open>\<open>cleanSolution\<close>, cut at its three \<open>await\<close>s.\<close>

definition cleanSolution_done :: "sys \<Rightarrow> sys" where
  "cleanSolution_done s =
     (let s = b_postMessage (BuildProgress 100 Cleaning) s;
          s = effect (ShowInformationMessage CleanDone) s;
          s = s\<lparr>isBuilding := False\<rparr>;
          s = s\<lparr>buildProcess := None\<rparr>
      in b_postMessage BuildSuccess s)"

definition cleanSolution_staged :: "string \<Rightarrow> sys \<Rightarrow> sys" where
  "cleanSolution_staged projectDir s =
     (let s = b_postMessage (BuildProgress 70 Cleaning) s;
          savedStagingDir = path_join [projectDir, ''Saved'', ''StagedBuilds'']
      in if existsSync (files s) savedStagingDir
         then rm savedStagingDir CleanStagedK
                (b_postMessage (BuildProgress 85 DeletingStagedBuilds) s)
         else cleanSolution_done s)"

definition cleanSolution_binaries :: "string \<Rightarrow> sys \<Rightarrow> sys" where
  "cleanSolution_binaries projectDir s =
     (let s = b_postMessage (BuildProgress 40 Cleaning) s;
          binariesDir = path_join [projectDir, ''Binaries'']
      in if existsSync (files s) binariesDir
         then rm binariesDir (CleanBinariesK projectDir)
                (b_postMessage (BuildProgress 60 DeletingBinaries) s)
         else cleanSolution_staged projectDir s)"

definition cleanSolution_intermediate :: "string \<Rightarrow> sys \<Rightarrow> sys" where
  "cleanSolution_intermediate projectDir s =
     (let s = b_postMessage (BuildProgress 10 Cleaning) s;
          intermediateDir = path_join [projectDir, ''Intermediate'']
      in if existsSync (files s) intermediateDir
         then rm intermediateDir (CleanIntermediateK projectDir)
                (b_postMessage (BuildProgress 20 DeletingIntermediate) s)
         else cleanSolution_binaries projectDir s)"

definition validation_text :: "validation \<Rightarrow> uitext" where
  "validation_text v = (case error v of Some e \<Rightarrow> e | None \<Rightarrow> ValidationFailed)"

definition cleanSolution :: "sys \<Rightarrow> sys" where
  "cleanSolution s =
     (if isBuilding s then effect (ShowWarningMessage OperationInProgress) s
      else
        let validation = validateConfig (files s) (config s)
        in if \<not> valid validation then effect (ShowErrorMessage (validation_text validation)) s
           else
             let projectDir = getProjectDir (config s);
                 s = s\<lparr>isBuilding := True\<rparr>;
                 s = b_postMessage BuildStarted s
             in cleanSolution_intermediate projectDir s)"

text \<open>
  \<open>generateSolution\<close>, and \<open>regenerateSolution\<close> with \<open>_cleanSolutionInternal\<close>
  cut at its three \<open>await\<close>s.
\<close>

definition delete_solution_then_generate :: "BuildConfig \<Rightarrow> string \<Rightarrow> bcont \<Rightarrow> sys \<Rightarrow> outcome" where
  "delete_solution_then_generate cfg solutionPath k s =
     (if existsSync (files s) solutionPath
      then (case unlinkSync solutionPath s of
              Inl thrown \<Rightarrow> Inl thrown
            | Inr s \<Rightarrow> b_generateProjectFiles cfg k s)
      else b_generateProjectFiles cfg k s)"

definition generateSolution :: "sys \<Rightarrow> sys" where
  "generateSolution s =
     (if isBuilding s then effect (ShowWarningMessage OperationInProgress) s
      else
        let cfg = config s;
            validation = validateConfig (files s) (config s)
        in if \<not> valid validation then effect (ShowErrorMessage (validation_text validation)) s
           else
             let solutionPath = getSolutionPath (config s);
                 s = s\<lparr>isBuilding := True\<rparr>;
                 s = b_postMessage BuildStarted s
             in try_catch (delete_solution_then_generate cfg solutionPath GenerateSolutionK s)
                  operation_catch)"

definition regenerate_after_clean :: "BuildConfig \<Rightarrow> string \<Rightarrow> sys \<Rightarrow> sys" where
  "regenerate_after_clean cfg solutionPath s =
     try_catch (delete_solution_then_generate cfg solutionPath (RegenerateGenerateK cfg) s)
       operation_catch"

definition cleanSolutionInternal_staged :: "BuildConfig \<Rightarrow> string \<Rightarrow> string \<Rightarrow> sys \<Rightarrow> sys" where
  "cleanSolutionInternal_staged cfg projectDir solutionPath s =
     (let s = b_postMessage (BuildProgress 28 Cleaning) s;
          savedStagingDir = path_join [projectDir, ''Saved'', ''StagedBuilds'']
      in if existsSync (files s) savedStagingDir
         then rm savedStagingDir (RegenStagedK cfg solutionPath) s
         else regenerate_after_clean cfg solutionPath (b_postMessage (BuildProgress 30 Cleaning) s))"

definition cleanSolutionInternal_binaries :: "BuildConfig \<Rightarrow> string \<Rightarrow> string \<Rightarrow> sys \<Rightarrow> sys" where
  "cleanSolutionInternal_binaries cfg projectDir solutionPath s =
     (let s = b_postMessage (BuildProgress 20 Cleaning) s;
          binariesDir = path_join [projectDir, ''Binaries'']
      in if existsSync (files s) binariesDir
         then rm binariesDir (RegenBinariesK cfg projectDir solutionPath)
                (b_postMessage (BuildProgress 25 DeletingBinaries) s)
         else cleanSolutionInternal_staged cfg projectDir solutionPath s)"

definition cleanSolutionInternal :: "BuildConfig \<Rightarrow> string \<Rightarrow> string \<Rightarrow> sys \<Rightarrow> sys" where
  "cleanSolutionInternal cfg projectDir solutionPath s =
     (let s = b_postMessage (BuildProgress 10 Cleaning) s;
          intermediateDir = path_join [projectDir, ''Intermediate'']
      in if existsSync (files s) intermediateDir
         then rm intermediateDir (RegenIntermediateK cfg projectDir solutionPath)
                (b_postMessage (BuildProgress 15 DeletingIntermediate) s)
         else cleanSolutionInternal_binaries cfg projectDir solutionPath s)"

definition regenerateSolution :: "sys \<Rightarrow> sys" where
  "regenerateSolution s =
     (if isBuilding s then effect (ShowWarningMessage OperationInProgress) s
      else
        let cfg = config s;
            validation = validateConfig (files s) (config s)
        in if \<not> valid validation then effect (ShowErrorMessage (validation_text validation)) s
           else
             let projectDir = getProjectDir (config s);
                 solutionPath = getSolutionPath (config s);
                 s = s\<lparr>isBuilding := True\<rparr>;
                 s = b_postMessage BuildStarted s
             in cleanSolutionInternal cfg projectDir solutionPath s)"

text \<open>
  A removal settles: rejected, the \<open>await\<close> throws into the \<open>catch\<close> block of
  the operation; resolved, the directory and what is under it are gone and
  the operation goes on.
\<close>

fun rm_catch :: "rmcont \<Rightarrow> jserror \<Rightarrow> sys \<Rightarrow> sys" where
  "rm_catch (CleanIntermediateK projectDir) e s = clean_catch e s"
| "rm_catch (CleanBinariesK projectDir) e s = clean_catch e s"
| "rm_catch CleanStagedK e s = clean_catch e s"
| "rm_catch (RegenIntermediateK cfg projectDir solutionPath) e s = operation_catch e s"
| "rm_catch (RegenBinariesK cfg projectDir solutionPath) e s = operation_catch e s"
| "rm_catch (RegenStagedK cfg solutionPath) e s = operation_catch e s"

fun rm_resume :: "rmcont \<Rightarrow> sys \<Rightarrow> sys" where
  "rm_resume (CleanIntermediateK projectDir) s = cleanSolution_binaries projectDir s"
| "rm_resume (CleanBinariesK projectDir) s = cleanSolution_staged projectDir s"
| "rm_resume CleanStagedK s = cleanSolution_done s"
| "rm_resume (RegenIntermediateK cfg projectDir solutionPath) s =
     cleanSolutionInternal_binaries cfg projectDir solutionPath s"
| "rm_resume (RegenBinariesK cfg projectDir solutionPath) s =
     cleanSolutionInternal_staged cfg projectDir solutionPath s"
| "rm_resume (RegenStagedK cfg solutionPath) s =
     regenerate_after_clean cfg solutionPath (b_postMessage (BuildProgress 30 Cleaning) s)"

definition onRmSettled :: "nat \<Rightarrow> jserror option \<Rightarrow> sys \<Rightarrow> sys" where
  "onRmSettled h result s =
     (case map_of (b_rms s) h of
        None \<Rightarrow> s
      | Some (dir, k) \<Rightarrow>
          let s = s\<lparr>b_rms := AList.delete h (b_rms s)\<rparr>
          in case result of
               Some e \<Rightarrow> rm_catch k e s
             | None \<Rightarrow> rm_resume k (s\<lparr>files := Set.filter (\<lambda>q. \<not> is_under dir q) (files s)\<rparr>))"

section \<open>DebugManager\<close>

definition d_postMessage :: "message \<Rightarrow> sys \<Rightarrow> sys" where
  "d_postMessage m s = (if d_view s then effect (PostMessage m) s else s)"

definition cancelDebug :: "sys \<Rightarrow> sys" where
  "cancelDebug s =
     (case debugProcess s of
        None \<Rightarrow> s
      | Some pid \<Rightarrow>
          let s = effect (Taskkill pid) s;
              s = s\<lparr>isDebugging := False\<rparr>;
              s = s\<lparr>debugProcess := None\<rparr>;
              s = d_postMessage DebugCancelled s
          in effect (ShowInformationMessage OperationCancelled) s)"

definition d_executeProcess :: "string \<Rightarrow> string list \<Rightarrow> string \<Rightarrow> dcont \<Rightarrow> sys \<Rightarrow> sys" where
  "d_executeProcess executable args cwd k s =
     (let childProcess = next_id s;
          s = s\<lparr>next_id := childProcess + 1\<rparr>;
          s = effect (child_start executable args cwd childProcess) s;
          s = s\<lparr>debugProcess := Some childProcess\<rparr>
      in s\<lparr>d_procs := (childProcess,
             \<lparr>d_stdout = [], d_stderr = [], d_currentProgress = 0, d_waiting = Some k\<rparr>) # d_procs s\<rparr>)"

definition d_onStdout :: "nat \<Rightarrow> string \<Rightarrow> sys \<Rightarrow> sys" where
  "d_onStdout h t s =
     (case map_of (d_procs s) h of
        None \<Rightarrow> s
      | Some p0 \<Rightarrow>
          let p = p0\<lparr>d_stdout := d_stdout p0 @ t\<rparr>;
              progress = of_nat (parseProgress t)
          in if progress > d_currentProgress p
             then let p = p\<lparr>d_currentProgress := progress\<rparr>;
                      s = s\<lparr>d_procs := AList.update h p (d_procs s)\<rparr>
                  in d_postMessage (BuildProgress (10 + progress * (2 / 5)) (getProgressMessage t)) s
             else s\<lparr>d_procs := AList.update h p (d_procs s)\<rparr>)"

definition d_onStderr :: "nat \<Rightarrow> string \<Rightarrow> sys \<Rightarrow> sys" where
  "d_onStderr h t s =
     (case map_of (d_procs s) h of
        None \<Rightarrow> s
      | Some p \<Rightarrow> s\<lparr>d_procs := AList.update h (p\<lparr>d_stderr := d_stderr p @ t\<rparr>) (d_procs s)\<rparr>)"

text \<open>The \<open>catch\<close> block of \<open>startDebug\<close> and \<open>startWithoutDebug\<close>.\<close>

definition debug_catch :: "jserror \<Rightarrow> sys \<Rightarrow> sys" where
  "debug_catch e s =
     (let s = s\<lparr>isDebugging := False\<rparr>;
          s = s\<lparr>debugProcess := None\<rparr>;
          msg = errorMessage e;
          s = effect (ShowErrorMessage LaunchFailed) s
      in d_postMessage (DebugFailed msg) s)"

definition d_buildProject :: "BuildConfig \<Rightarrow> dcont \<Rightarrow> sys \<Rightarrow> outcome" where
  "d_buildProject cfg k s =
     (let path = projectPath cfg;
          projectDir = getProjectDir (config s);
          projectName = getProjectName (config s);
          flavor = buildConfiguration cfg;
          ueEnginePath = uePath cfg;
          buildBatPath = path_join [engineRootDir ueEnginePath, ''Engine'', ''Build'', ''BatchFiles'', ''Build.bat'']
      in if \<not> existsSync (files s) buildBatPath then Inl (Error (BatNotFoundMessage buildBatPath), s)
         else Inr (d_executeProcess buildBatPath (buildProject_args projectName flavor path)
                     projectDir k s))"

text \<open>
  The rest of \<open>startDebug\<close> and of \<open>startWithoutDebug\<close> after the build. The
  handle of the detached engine process is stored and cleared in the same
  step, so only the cleared handle is seen.
\<close>

definition launch_command :: "string \<Rightarrow> string \<Rightarrow> string" where
  "launch_command editor path = [dquote] @ editor @ [dquote] @ '' '' @ [dquote] @ path @ [dquote]"

fun d_launch :: "dcont \<Rightarrow> sys \<Rightarrow> outcome" where
  "d_launch (StartDebugK cfg projectDir) s =
     (let s = d_postMessage (BuildProgress 50 LaunchingDebug) s
      in if uePath cfg = [] \<or> \<not> existsSync (files s) (uePath cfg) then Inl (Error UEPathMessage, s)
         else
           let debugCommand = launch_command (uePath cfg) (projectPath cfg) @ '' -debug'';
               s = effect (SpawnDetached debugCommand projectDir) s;
               s = s\<lparr>debugProcess := None\<rparr>;
               s = s\<lparr>isDebugging := False\<rparr>;
               s = d_postMessage (BuildProgress 100 DebugLaunched) s;
               s = effect (ShowInformationMessage DebugLaunched) s
           in Inr (d_postMessage DebugSuccess s))"
| "d_launch (StartWithoutDebugK cfg projectDir) s =
     (let s = d_postMessage (BuildProgress 50 LaunchingProject) s
      in if uePath cfg = [] \<or> \<not> existsSync (files s) (uePath cfg) then Inl (Error UEPathMessage, s)
         else
           let runCommand = launch_command (uePath cfg) (projectPath cfg);
               s = effect (ExecLaunch runCommand projectDir) s;
               s = s\<lparr>debugProcess := None\<rparr>;
               s = s\<lparr>isDebugging := False\<rparr>;
               s = d_postMessage (BuildProgress 100 ProjectLaunched) s;
               s = effect (ShowInformationMessage ProjectLaunched) s
           in Inr (d_postMessage DebugSuccess s))"

definition d_resume :: "dcont \<Rightarrow> sys \<Rightarrow> sys" where
  "d_resume k s = try_catch (d_launch k s) debug_catch"

definition d_onClose :: "nat \<Rightarrow> int option \<Rightarrow> sys \<Rightarrow> sys" where
  "d_onClose h code s =
     (case map_of (d_procs s) h of
        None \<Rightarrow> s
      | Some p \<Rightarrow>
          let s = s\<lparr>debugProcess := None\<rparr>;
              s = s\<lparr>d_procs := AList.delete h (d_procs s)\<rparr>
          in case d_waiting p of
               None \<Rightarrow> s
             | Some k \<Rightarrow>
                 if code = Some 0 then d_resume k s
                 else debug_catch (Error (ExitMessage code (d_stderr p))) s)"

definition d_onError :: "nat \<Rightarrow> jserror \<Rightarrow> sys \<Rightarrow> sys" where
  "d_onError h e s =
     (case map_of (d_procs s) h of
        None \<Rightarrow> s
      | Some p \<Rightarrow>
          let s = s\<lparr>debugProcess := None\<rparr>;
              s = s\<lparr>d_procs := AList.update h (p\<lparr>d_waiting := None\<rparr>) (d_procs s)\<rparr>
          in case d_waiting p of
               None \<Rightarrow> s
             | Some k \<Rightarrow> debug_catch e s)"

definition start_with_build :: "(BuildConfig \<Rightarrow> string \<Rightarrow> dcont) \<Rightarrow> sys \<Rightarrow> sys" where
  "start_with_build K s =
     (if isDebugging s then effect (ShowWarningMessage OperationInProgress) s
      else
        let cfg = config s;
            validation = validateConfig (files s) (config s)
        in if \<not> valid validation then effect (ShowErrorMessage (validation_text validation)) s
           else
             let projectDir = getProjectDir (config s);
                 s = s\<lparr>isDebugging := True\<rparr>;
                 s = d_postMessage DebugStarted s;
                 s = d_postMessage (BuildProgress 10 Compiling) s
             in try_catch (d_buildProject cfg (K cfg projectDir) s) debug_catch)"

definition startDebug :: "sys \<Rightarrow> sys" where
  "startDebug s = start_with_build StartDebugK s"

definition startWithoutDebug :: "sys \<Rightarrow> sys" where
  "startWithoutDebug s = start_with_build StartWithoutDebugK s"

definition launchProject :: "sys \<Rightarrow> sys" where
  "launchProject s =
     (let cfg = config s
      in if projectPath cfg = [] \<or> \<not> existsSync (files s) (projectPath cfg)
         then effect (ShowErrorMessage ProjectPathUnsetOrMissing) s
         else if uePath cfg = [] \<or> \<not> existsSync (files s) (uePath cfg)
         then effect (ShowErrorMessage UEPathUnsetOrMissing) s
         else
           let projectDir = getProjectDir (config s);
               runCommand = launch_command (uePath cfg) (projectPath cfg);
               s = effect (ExecLaunch runCommand projectDir) s
           in effect (ShowInformationMessage ProjectLaunched) s)"

section \<open>Events\<close>

text \<open>
  The calls the panel makes on the managers, and what the environment delivers
  between them: a removal settles, a child process writes, closes or fails,
  time passes, the files change.
\<close>

datatype event =
    UpdateConfig PartialConfig
  | CleanSolution | RegenerateSolution | GenerateSolution | CancelBuild
  | StartDebug | StartWithoutDebug | LaunchProject | CancelDebug
  | RmSettled nat "jserror option"
  | StdoutData nat string
  | StderrData nat string
  | Close nat "int option"
  | ProcError nat jserror
  | Tick nat
  | FilesChanged "string set"

fun step :: "event \<Rightarrow> sys \<Rightarrow> sys" where
  "step (UpdateConfig p) s = updateConfig p s"
| "step CleanSolution s = cleanSolution s"
| "step RegenerateSolution s = regenerateSolution s"
| "step GenerateSolution s = generateSolution s"
| "step CancelBuild s = cancelBuild s"
| "step StartDebug s = startDebug s"
| "step StartWithoutDebug s = startWithoutDebug s"
| "step LaunchProject s = launchProject s"
| "step CancelDebug s = cancelDebug s"
| "step (RmSettled h result) s = onRmSettled h result s"
| "step (StdoutData h t) s = d_onStdout h t (b_onStdout h t s)"
| "step (StderrData h t) s = d_onStderr h t (b_onStderr h t s)"
| "step (Close h code) s = d_onClose h code (b_onClose h code s)"
| "step (ProcError h e) s = d_onError h e (b_onError h e s)"
| "step (Tick ms) s = s\<lparr>now := now s + ms\<rparr>"
| "step (FilesChanged fs) s = s\<lparr>files := fs\<rparr>"

definition run :: "event list \<Rightarrow> sys \<Rightarrow> sys" where
  "run evs s = foldl (\<lambda>s e. step e s) s evs"

text \<open>The progress values posted, in order.\<close>

fun progress_of :: "action \<Rightarrow> rat list" where
  "progress_of (PostMessage (BuildProgress v t)) = [v]"
| "progress_of a = []"

definition progress_values :: "action list \<Rightarrow> rat list" where
  "progress_values acts = concat (map progress_of acts)"

section \<open>The specification's words, and an example\<close>

text \<open>
  The four checks of \<open>validate()\<close> in the order the specification lists them,
  each with its reason; \<open>first_failure\<close> is the reason of the first check that
  fails.
\<close>

definition validation_checks :: "(uitext \<times> (string set \<Rightarrow> BuildConfig \<Rightarrow> bool)) list" where
  "validation_checks =
     [(UEPathNotSet, \<lambda>fs c. uePath c = []),
      (UEPathNotFound, \<lambda>fs c. uePath c \<notin> fs),
      (ProjectPathNotSet, \<lambda>fs c. projectPath c = []),
      (ProjectPathNotFound, \<lambda>fs c. projectPath c \<notin> fs)]"

definition first_failure :: "string set \<Rightarrow> BuildConfig \<Rightarrow> uitext option" where
  "first_failure fs c = map_option fst (find (\<lambda>check. snd check fs c) validation_checks)"

text \<open>
  ``The basename of the project path with its extension stripped'': the
  extension of a name starts at its last dot, unless that dot is its first
  character.
\<close>

definition stripExtension :: "string \<Rightarrow> string" where
  "stripExtension name =
     (let r = dropWhile (\<lambda>c. c \<noteq> CHR ''.'') (rev name)
      in if length r \<le> 1 then name else rev (tl r))"

definition spec_getProjectName :: "BuildConfig \<Rightarrow> string" where
  "spec_getProjectName c = stripExtension (basename (projectPath c) [])"

text \<open>
  The arguments of the build script as the specification lists them, the
  platform being \<open>Win64\<close>; \<open>buildScriptPath\<close> is the script under the engine
  root, four directories above the editor executable.
\<close>

definition build_script_arguments :: "string \<Rightarrow> string \<Rightarrow> string \<Rightarrow> bool \<Rightarrow> string list" where
  "build_script_arguments projectName flavor path generate =
     [projectName @ ''Editor'', ''Win64'', flavor, ''-Project='' @ [dquote] @ path @ [dquote],
      ''-WaitMutex'', ''-FromMsBuild'', ''-architecture=x64'']
     @ (if generate then [''-GenerateProjectFiles''] else [])"

definition buildScriptPath :: "BuildConfig \<Rightarrow> string" where
  "buildScriptPath cfg =
     path_join [engineRootDir (uePath cfg), ''Engine'', ''Build'', ''BatchFiles'', ''Build.bat'']"

definition outcome_state :: "outcome \<Rightarrow> sys" where
  "outcome_state r = (case r of Inl (e, s) \<Rightarrow> s | Inr s \<Rightarrow> s)"

text \<open>
  The project \<open>C:\Proj\Game.uproject\<close> with an engine under \<open>C:\UE\<close>, build
  flavor \<open>Shipping\<close>, an \<open>Intermediate\<close> directory and a solution file; both
  managers idle.
\<close>

definition example_config :: BuildConfig where
  "example_config =
     \<lparr>uePath = win ''C:/UE/Engine/Binaries/Win64/UnrealEditor.exe'',
      projectPath = win ''C:/Proj/Game.uproject'',
      buildConfiguration = ''Shipping''\<rparr>"

definition example_state :: sys where
  "example_state =
     \<lparr>config = example_config, c_view = True,
      files = {win ''C:/UE/Engine/Binaries/Win64/UnrealEditor.exe'',
               win ''C:/UE/Engine/Build/BatchFiles/Build.bat'',
               win ''C:/Proj/Game.uproject'', win ''C:/Proj/Game.sln'',
               win ''C:/Proj/Intermediate''},
      unlink_errors = [], now = 0, next_id = 0,
      isBuilding = False, buildProcess = None, b_view = True, b_rms = [], b_procs = [],
      isDebugging = False, debugProcess = None, d_view = True, d_procs = [], trace = []\<rparr>"

text \<open>
  The output events of the child \<open>h\<close>, and the stderr text they carry.
\<close>

fun is_output_of :: "nat \<Rightarrow> event \<Rightarrow> bool" where
  "is_output_of h (StdoutData h' t) = (h' = h)"
| "is_output_of h (StderrData h' t) = (h' = h)"
| "is_output_of h e = False"

fun stderr_chunk :: "nat \<Rightarrow> event \<Rightarrow> string" where
  "stderr_chunk h (StderrData h' t) = (if h' = h then t else [])"
| "stderr_chunk h e = []"

definition captured_stderr :: "nat \<Rightarrow> event list \<Rightarrow> string" where
  "captured_stderr h evs = concat (map (stderr_chunk h) evs)"

section \<open>Operations in flight\<close>

text \<open>
  An operation is in flight while a promise it awaits is pending: a removal in
  \<open>b_rms\<close>, or a child process whose promise has not settled. The invariants
  say that the handles in the tables are below the next fresh one, that no
  handle occurs twice, and that a manager has one operation in flight when its
  flag is set and none otherwise.
\<close>

definition b_inflight :: "sys \<Rightarrow> nat" where
  "b_inflight s = length (b_rms s) + length (filter (\<lambda>hp. b_waiting (snd hp) \<noteq> None) (b_procs s))"

definition d_inflight :: "sys \<Rightarrow> nat" where
  "d_inflight s = length (filter (\<lambda>hp. d_waiting (snd hp) \<noteq> None) (d_procs s))"

definition build_inv :: "sys \<Rightarrow> bool" where
  "build_inv s =
     ((\<forall>x \<in> set (b_rms s). fst x < next_id s) \<and>
      (\<forall>x \<in> set (b_procs s). fst x < next_id s) \<and>
      distinct (map fst (b_procs s)) \<and>
      b_inflight s = (if isBuilding s then 1 else 0))"

definition debug_inv :: "sys \<Rightarrow> bool" where
  "debug_inv s =
     ((\<forall>x \<in> set (d_procs s). fst x < next_id s) \<and>
      distinct (map fst (d_procs s)) \<and>
      d_inflight s = (if isDebugging s then 1 else 0))"

text \<open>
  Between two \<open>await\<close>s the code of an operation is running: the flag is set
  and nothing is awaited.
\<close>

definition b_running :: "sys \<Rightarrow> bool" where
  "b_running s =
     ((\<forall>x \<in> set (b_rms s). fst x < next_id s) \<and>
      (\<forall>x \<in> set (b_procs s). fst x < next_id s) \<and>
      distinct (map fst (b_procs s)) \<and> isBuilding s \<and> b_inflight s = 0)"

definition d_running :: "sys \<Rightarrow> bool" where
  "d_running s =
     ((\<forall>x \<in> set (d_procs s). fst x < next_id s) \<and>
      distinct (map fst (d_procs s)) \<and> isDebugging s \<and> d_inflight s = 0)"

definition outcome_ok :: "outcome \<Rightarrow> bool" where
  "outcome_ok r = (case r of Inl (e, s) \<Rightarrow> b_running s | Inr s \<Rightarrow> build_inv s)"

text \<open>What a step of one manager leaves of the other.\<close>

definition b_untouched :: "sys \<Rightarrow> sys \<Rightarrow> bool" where
  "b_untouched s s' =
     (b_rms s' = b_rms s \<and> b_procs s' = b_procs s \<and> isBuilding s' = isBuilding s \<and>
      buildProcess s' = buildProcess s \<and> b_view s' = b_view s \<and> next_id s \<le> next_id s')"

definition d_untouched :: "sys \<Rightarrow> sys \<Rightarrow> bool" where
  "d_untouched s s' =
     (d_procs s' = d_procs s \<and> isDebugging s' = isDebugging s \<and>
      debugProcess s' = debugProcess s \<and> d_view s' = d_view s \<and> next_id s \<le> next_id s')"

definition d_untouched_outcome :: "sys \<Rightarrow> outcome \<Rightarrow> bool" where
  "d_untouched_outcome s0 r = d_untouched s0 (outcome_state r)"

text \<open>
  The managers as their constructors leave them, and the states reached from
  there by any events but the two cancel requests. \<open>busy s\<close> is \<open>s\<close> after the
  warning that an operation is in progress, and nothing else.
\<close>

definition initial :: "sys \<Rightarrow> bool" where
  "initial s =
     (\<not> isBuilding s \<and> buildProcess s = None \<and> b_rms s = [] \<and> b_procs s = [] \<and>
      \<not> isDebugging s \<and> debugProcess s = None \<and> d_procs s = [])"

inductive reachable_without_cancel :: "sys \<Rightarrow> bool" where
  start: "initial s \<Longrightarrow> reachable_without_cancel s"
| after: "reachable_without_cancel s \<Longrightarrow> e \<noteq> CancelBuild \<Longrightarrow> e \<noteq> CancelDebug \<Longrightarrow>
          reachable_without_cancel (step e s)"

definition busy :: "sys \<Rightarrow> sys" where
  "busy s = s\<lparr>trace := trace s @ [ShowWarningMessage OperationInProgress]\<rparr>"

section \<open>A clean in flight\<close>

text \<open>
  \<open>cleanSolution\<close> is in flight while one of its three continuations waits for
  a removal. \<open>clean_in_flight\<close> are the states of such a run: it begins when
  \<open>cleanSolution\<close> is called on a manager with no operation in flight and no
  process handle, and lasts through any events as long as a continuation of
  the clean is pending.
\<close>

fun is_clean_cont :: "rmcont \<Rightarrow> bool" where
  "is_clean_cont (CleanIntermediateK projectDir) = True"
| "is_clean_cont (CleanBinariesK projectDir) = True"
| "is_clean_cont CleanStagedK = True"
| "is_clean_cont k = False"

definition clean_pending :: "sys \<Rightarrow> bool" where
  "clean_pending s = (\<exists>x \<in> set (b_rms s). is_clean_cont (snd (snd x)))"

definition b_idle :: "sys \<Rightarrow> bool" where
  "b_idle s = (\<not> isBuilding s \<and> buildProcess s = None \<and> b_inflight s = 0)"

inductive clean_in_flight :: "sys \<Rightarrow> bool" where
  begun: "b_idle s \<Longrightarrow> clean_pending (cleanSolution s) \<Longrightarrow> clean_in_flight (cleanSolution s)"
| still: "clean_in_flight s \<Longrightarrow> clean_pending (step e s) \<Longrightarrow> clean_in_flight (step e s)"

text \<open>
  The shape of the manager while the clean waits for a removal, while its code
  runs between two removals, and when it has ended.
\<close>

definition clean_awaiting :: "sys \<Rightarrow> bool" where
  "clean_awaiting s =
     (isBuilding s \<and> buildProcess s = None \<and>
      (\<exists>h dir k. b_rms s = [(h, dir, k)] \<and> is_clean_cont k) \<and>
      list_all (\<lambda>x. b_waiting (snd x) = None) (b_procs s))"

definition clean_running :: "sys \<Rightarrow> bool" where
  "clean_running s =
     (isBuilding s \<and> buildProcess s = None \<and> b_rms s = [] \<and>
      list_all (\<lambda>x. b_waiting (snd x) = None) (b_procs s))"

definition clean_ended :: "sys \<Rightarrow> bool" where
  "clean_ended s = (\<not> isBuilding s \<and> b_rms s = [])"

section \<open>The steps of regenerateSolution\<close>

text \<open>
  What a run of the build manager does to the project and to the toolchain,
  read off the actions it takes: a directory removed, a file unlinked, a child
  process started from a command line or from a program and its arguments.
  The story of a trace is these steps in order, with the two ways
  \<open>regenerateSolution\<close> ends: the error notification of its \<open>catch\<close> block and the
  notification of its completion.
\<close>

datatype side_effect =
    Removes string | Unlinks string | RunsCommand string | RunsProgram string "string list"

datatype story_item = Did side_effect | Failed | Succeeded

fun story_of :: "action \<Rightarrow> story_item list" where
  "story_of (Rm p h) = [Did (Removes p)]"
| "story_of (UnlinkSync p) = [Did (Unlinks p)]"
| "story_of (Exec command cwd h) = [Did (RunsCommand command)]"
| "story_of (Spawn executable args cwd h) = [Did (RunsProgram executable args)]"
| "story_of (ShowErrorMessage t) = (if t = OperationFailed then [Failed] else [])"
| "story_of (ShowInformationMessage t) = (if t = RegenerateDone then [Succeeded] else [])"
| "story_of a = []"

definition story :: "action list \<Rightarrow> story_item list" where
  "story acts = concat (map story_of acts)"

fun did_of :: "story_item \<Rightarrow> side_effect list" where
  "did_of (Did e) = [e]"
| "did_of i = []"

definition dids :: "story_item list \<Rightarrow> side_effect list" where
  "dids w = concat (map did_of w)"

text \<open>
  The specification's sequence for \<open>regenerate\<close>: the three directories of the
  clean, the solution file, the script in generate mode, the script for the
  full build. The generate step is listed with the flavor the code passes.
\<close>

definition runs_script :: "string \<Rightarrow> string list \<Rightarrow> side_effect" where
  "runs_script executable args =
     (if endsWith executable ''.bat'' then RunsCommand (bat_command executable args)
      else RunsProgram executable args)"

definition regenerate_plan :: "BuildConfig \<Rightarrow> side_effect list" where
  "regenerate_plan cfg =
     [Removes (path_join [getProjectDir cfg, ''Intermediate'']),
      Removes (path_join [getProjectDir cfg, ''Binaries'']),
      Removes (path_join [getProjectDir cfg, ''Saved'', ''StagedBuilds'']),
      Unlinks (getSolutionPath cfg),
      runs_script (buildScriptPath cfg)
        (build_script_arguments (getProjectName cfg) ''Development'' (projectPath cfg) True),
      runs_script (buildScriptPath cfg)
        (build_script_arguments (getProjectName cfg) (buildConfiguration cfg) (projectPath cfg) False)]"



text \<open>
  The states of a run of \<open>regenerateSolution\<close> that began in \<open>s0\<close>: between two
  \<open>await\<close>s, awaiting one of the three removals, awaiting one of the two runs
  of the script, ended by completion, ended by failure. In each the steps
  taken so far are some of the first steps of the plan, in its order.
\<close>

definition among_first :: "nat \<Rightarrow> 'a list \<Rightarrow> 'a list \<Rightarrow> bool" where
  "among_first i pl m = subseq m (take i pl)"

definition told :: "sys \<Rightarrow> sys \<Rightarrow> story_item list \<Rightarrow> bool" where
  "told s0 s w = (config s = config s0 \<and> story (trace s) = story (trace s0) @ w)"

definition regen_running :: "sys \<Rightarrow> side_effect list \<Rightarrow> sys \<Rightarrow> bool" where
  "regen_running s0 m s =
     (told s0 s (map Did m) \<and> isBuilding s \<and> b_rms s = [] \<and> b_procs s = [])"

definition regen_awaiting_rm :: "sys \<Rightarrow> nat \<Rightarrow> rmcont \<Rightarrow> sys \<Rightarrow> bool" where
  "regen_awaiting_rm s0 i k s =
     (isBuilding s \<and> b_procs s = [] \<and> (\<exists>h dir. b_rms s = [(h, dir, k)]) \<and>
      (\<exists>m. among_first (Suc i) (regenerate_plan (config s0)) m \<and> told s0 s (map Did m)))"

definition regen_awaiting_script :: "sys \<Rightarrow> bcont \<Rightarrow> side_effect list \<Rightarrow> sys \<Rightarrow> bool" where
  "regen_awaiting_script s0 k scripts s =
     (isBuilding s \<and> b_rms s = [] \<and> (\<exists>h p. b_procs s = [(h, p)] \<and> b_waiting p = Some k) \<and>
      (\<exists>m. among_first 4 (regenerate_plan (config s0)) m \<and> told s0 s (map Did (m @ scripts))))"

definition regen_succeeded :: "sys \<Rightarrow> sys \<Rightarrow> bool" where
  "regen_succeeded s0 s =
     (\<not> isBuilding s \<and> b_rms s = [] \<and> b_procs s = [] \<and>
      (\<exists>m. among_first 4 (regenerate_plan (config s0)) m \<and>
           told s0 s (map Did (m @ drop 4 (regenerate_plan (config s0))) @ [Succeeded])))"

definition regen_failed :: "sys \<Rightarrow> sys \<Rightarrow> bool" where
  "regen_failed s0 s =
     (\<not> isBuilding s \<and> b_rms s = [] \<and> list_all (\<lambda>x. b_waiting (snd x) = None) (b_procs s) \<and>
      (\<exists>m. subseq m (regenerate_plan (config s0)) \<and> told s0 s (map Did m @ [Failed])))"

definition regen_state :: "sys \<Rightarrow> sys \<Rightarrow> bool" where
  "regen_state s0 s =
     (regen_awaiting_rm s0 0
        (RegenIntermediateK (config s0) (getProjectDir (config s0)) (getSolutionPath (config s0))) s \<or>
      regen_awaiting_rm s0 1
        (RegenBinariesK (config s0) (getProjectDir (config s0)) (getSolutionPath (config s0))) s \<or>
      regen_awaiting_rm s0 2 (RegenStagedK (config s0) (getSolutionPath (config s0))) s \<or>
      regen_awaiting_script s0 (RegenerateGenerateK (config s0))
        (take 1 (drop 4 (regenerate_plan (config s0)))) s \<or>
      regen_awaiting_script s0 RegenerateBuildK (drop 4 (regenerate_plan (config s0))) s \<or>
      regen_succeeded s0 s \<or> regen_failed s0 s)"


text \<open>
  The specification's sequence for \<open>regenerate\<close> as a program of its own, to
  compare the code with. The steps of the plan are taken in order. A directory
  or a solution file that is absent is passed over. A removal and a run of the
  script are awaited, the unlink is not. A step that fails ends the sequence
  with the failure, and so does a script that is missing; after the last step
  the sequence ends with the success. The state is the story so far, the
  files, the handle that the next awaited step gets, and what is awaited: a
  removal or a run of the script, with its handle and the steps that follow.
\<close>

datatype awaited = Nothing | Removal nat string "side_effect list" | ScriptRun nat "side_effect list"

record spec_sequence =
  sq_story :: "story_item list"
  sq_files :: "string set"
  sq_next :: nat
  sq_awaits :: awaited






text \<open>
  The states of the code that correspond to a state of the sequence: the same
  configuration, story, files and next handle; between two \<open>await\<close>s nothing
  pending; otherwise the one promise the sequence awaits, with the
  continuation of the code that resumes at the steps that follow.
\<close>

definition removal_resumes :: "BuildConfig \<Rightarrow> rmcont \<Rightarrow> side_effect list \<Rightarrow> bool" where
  "removal_resumes cfg k rest =
     ((k = RegenIntermediateK cfg (getProjectDir cfg) (getSolutionPath cfg) \<and>
       rest = drop 1 (regenerate_plan cfg)) \<or>
      (k = RegenBinariesK cfg (getProjectDir cfg) (getSolutionPath cfg) \<and>
       rest = drop 2 (regenerate_plan cfg)) \<or>
      (k = RegenStagedK cfg (getSolutionPath cfg) \<and> rest = drop 3 (regenerate_plan cfg)))"

definition script_resumes :: "BuildConfig \<Rightarrow> bcont \<Rightarrow> side_effect list \<Rightarrow> bool" where
  "script_resumes cfg k rest =
     ((k = RegenerateGenerateK cfg \<and> rest = drop 5 (regenerate_plan cfg)) \<or>
      (k = RegenerateBuildK \<and> rest = []))"

definition sim_common :: "sys \<Rightarrow> spec_sequence \<Rightarrow> sys \<Rightarrow> bool" where
  "sim_common s0 r s =
     (config s = config s0 \<and> unlink_errors s = unlink_errors s0 \<and>
      story (trace s) = story (trace s0) @ sq_story r \<and>
      files s = sq_files r \<and> next_id s = sq_next r)"

definition sim_running :: "sys \<Rightarrow> spec_sequence \<Rightarrow> sys \<Rightarrow> bool" where
  "sim_running s0 r s = (sim_common s0 r s \<and> b_rms s = [] \<and> b_procs s = [])"

definition sim :: "sys \<Rightarrow> spec_sequence \<Rightarrow> sys \<Rightarrow> bool" where
  "sim s0 r s =
     (sim_common s0 r s \<and>
      (case sq_awaits r of
         Nothing \<Rightarrow> b_rms s = [] \<and> list_all (\<lambda>x. b_waiting (snd x) = None) (b_procs s)
       | Removal h p rest \<Rightarrow>
           b_procs s = [] \<and> (\<exists>k. b_rms s = [(h, p, k)] \<and> removal_resumes (config s0) k rest)
       | ScriptRun h rest \<Rightarrow>
           b_rms s = [] \<and>
           (\<exists>p k. b_procs s = [(h, p)] \<and> b_waiting p = Some k \<and>
                  script_resumes (config s0) k rest)))"

section \<open>ConfigManager: validation and derived paths\<close>

text \<open>
  Claim C2. \<open>validateConfig\<close> returns valid when no check fails, and otherwise
  the reason of the first failing check in the order: engine path unset, engine
  path does not exist, project path unset, project path does not exist. The
  four reasons are distinct.
\<close>

theorem validateConfig_first_failure:
  "validateConfig fs c = \<lparr>valid = (first_failure fs c = None), error = first_failure fs c\<rparr>
   \<and> map fst validation_checks = [UEPathNotSet, UEPathNotFound, ProjectPathNotSet, ProjectPathNotFound]
   \<and> distinct (map fst validation_checks)"
  by (simp add: validateConfig_def first_failure_def validation_checks_def existsSync_def)

lemma validateConfig_eq:
  "validateConfig fs c = \<lparr>valid = (first_failure fs c = None), error = first_failure fs c\<rparr>"
  by (simp add: validateConfig_def first_failure_def validation_checks_def existsSync_def)

lemma invalid_reason:
  "\<not> valid (validateConfig fs c) \<Longrightarrow>
     \<exists>reason. first_failure fs c = Some reason \<and> validation_text (validateConfig fs c) = reason"
  by (auto simp: validateConfig_eq validation_text_def)

text \<open>
  The last component of a path \<open>d\name\<close>, for a name without separators:
  \<open>basename\<close> removes the extension asked for when the name ends with it and
  is longer, and nothing else.
\<close>

lemma basename_file:
  assumes n: "n \<noteq> []" "\<forall>c \<in> set n. \<not> isPathSeparator c"
    and e: "\<forall>c \<in> set e. \<not> isPathSeparator c"
  shows "basename (d @ [bslash] @ n) e =
     (if endsWith n e \<and> n \<noteq> e \<and> e \<noteq> [] then take (length n - length e) n else n)"
proof -
  let ?p = "d @ [bslash] @ n"
  define start where
    "start = (if length ?p \<ge> 2 \<and> isWindowsDeviceRoot (?p ! 0) \<and> ?p ! 1 = CHR '':'' then 2 else 0 :: nat)"
  have sep: "isPathSeparator bslash" by (simp add: isPathSeparator_def)
  have ndev: "\<not> isWindowsDeviceRoot bslash" by (simp add: isWindowsDeviceRoot_def bslash_def)
  have ncol: "bslash \<noteq> CHR '':''" by (simp add: bslash_def)
  have sd: "start \<le> length d"
  proof (cases d)
    case Nil
    then show ?thesis using ndev by (simp add: start_def)
  next
    case (Cons a d')
    then show ?thesis using ncol by (cases d') (auto simp: start_def)
  qed
  have rv: "rev (drop start ?p) = rev n @ bslash # rev (drop start d)" using sd by simp
  obtain x xs where rn: "rev n = x # xs" using n(1) by (cases "rev n") auto
  have xn: "\<not> isPathSeparator x" using n(2) rn by (metis list.set_intros(1) set_rev)
  have r1: "dropWhile isPathSeparator (rev (drop start ?p)) = rev n @ bslash # rev (drop start d)"
    using rv rn xn by simp
  have tw: "takeWhile (\<lambda>c. \<not> isPathSeparator c) (rev n @ bslash # rev (drop start d)) = rev n"
    using n(2) sep by (simp add: takeWhile_append2 takeWhile_tail)
  have tws: "takeWhile isPathSeparator (rev (drop start ?p)) = []"
    using rv rn xn by simp
  have ne: "e \<noteq> ?p" using e sep by auto
  show ?thesis
    unfolding basename_def Let_def start_def[symmetric] r1 tw tws
    using rn ne by (auto simp: endsWith_def)
qed

text \<open>
  Claim C8, as the specification states it, fails: \<open>getProjectName\<close> strips the
  suffix \<open>.uproject\<close> and no other extension. For the project file
  \<open>C:\Proj\Game.UPROJECT\<close> it returns \<open>Game.UPROJECT\<close>, where the basename
  without its extension is \<open>Game\<close>.
\<close>

theorem getProjectName_keeps_other_extension:
  "getProjectName (example_config\<lparr>projectPath := win ''C:/Proj/Game.UPROJECT''\<rparr>) = ''Game.UPROJECT'' \<and>
   spec_getProjectName (example_config\<lparr>projectPath := win ''C:/Proj/Game.UPROJECT''\<rparr>) = ''Game''"
  by code_simp

text \<open>
  Claim C8, amended. For a project path \<open>d\n\<close> whose file name \<open>n\<close> has no
  separator, \<open>getProjectName\<close> returns \<open>n\<close> without a trailing \<open>.uproject\<close>
  (when \<open>n\<close> is longer than that suffix) and \<open>n\<close> itself otherwise, and
  \<open>getSolutionPath\<close> joins the directory of the project path with that name
  plus \<open>.sln\<close>.
\<close>

theorem getProjectName_strips_uproject:
  assumes "projectPath c = d @ [bslash] @ n" and "n \<noteq> []" and "\<forall>ch \<in> set n. \<not> isPathSeparator ch"
  shows "getProjectName c =
           (if endsWith n ''.uproject'' \<and> n \<noteq> ''.uproject''
            then take (length n - length ''.uproject'') n else n) \<and>
         getSolutionPath c = path_join [dirname (projectPath c), getProjectName c @ ''.sln'']"
proof -
  have "\<forall>ch \<in> set ''.uproject''. \<not> isPathSeparator ch"
    by (simp add: isPathSeparator_def bslash_def)
  from basename_file [OF assms(2) assms(3) this, of d]
  show ?thesis
    by (simp add: getProjectName_def getSolutionPath_def getProjectDir_def assms(1))
qed

text \<open>
  The example of the specification: for \<open>C:\Proj\Game.uproject\<close> the project
  name is \<open>Game\<close> and the solution path \<open>C:\Proj\Game.sln\<close>.
\<close>

theorem getProjectName_example:
  "getProjectName example_config = ''Game'' \<and>
   getSolutionPath example_config = win ''C:/Proj/Game.sln''"
proof -
  have p: "projectPath example_config = ''C:'' @ [bslash] @ ''Proj'' @ [bslash] @ ''Game.uproject''"
    by (simp add: example_config_def win_def)
  have n: "\<forall>ch \<in> set ''Game.uproject''. \<not> isPathSeparator ch"
    by (simp add: isPathSeparator_def bslash_def)
  from getProjectName_strips_uproject [of example_config "''C:'' @ [bslash] @ ''Proj''" "''Game.uproject''"] p n
  have g: "getProjectName example_config = ''Game''"
    and sp: "getSolutionPath example_config =
             path_join [dirname (projectPath example_config), getProjectName example_config @ ''.sln'']"
    by (simp_all add: endsWith_def)
  have "path_join [dirname (projectPath example_config), ''Game'' @ ''.sln''] = win ''C:/Proj/Game.sln''"
    by code_simp
  with g sp show ?thesis by simp
qed

section \<open>BuildManager: cancelling\<close>

text \<open>
  Claim C9. \<open>cancelBuild\<close> with no child process is a no-op: the state is the
  same afterwards, and with it the trace, so no message is posted and no
  process is killed. The call cannot throw: the only statement outside the
  \<open>try\<close> block is the test of the handle.
\<close>

theorem cancelBuild_without_process:
  "buildProcess s = None \<Longrightarrow> step CancelBuild s = s"
  by (simp add: cancelBuild_def)

theorem cancelBuild_without_process_witness:
  "buildProcess example_state = None \<and> step CancelBuild example_state = example_state"
  using cancelBuild_without_process [of example_state]
  by (simp add: example_state_def)

section \<open>Invalid configurations\<close>

text \<open>
  Claim C7. When the configuration is invalid, each of the five operations, on
  an idle manager, shows the reason of the validation and returns: the state
  after it is the state before it with that one error message added to the
  trace. So no file is deleted, no process is started, nothing is posted and
  the run flag stays clear.
\<close>

theorem invalid_config_stops_operation:
  assumes "\<not> valid (validateConfig (files s) (config s))"
  shows "\<exists>reason. first_failure (files s) (config s) = Some reason \<and>
     (\<not> isBuilding s \<longrightarrow>
        step CleanSolution s = s\<lparr>trace := trace s @ [ShowErrorMessage reason]\<rparr> \<and>
        step RegenerateSolution s = s\<lparr>trace := trace s @ [ShowErrorMessage reason]\<rparr> \<and>
        step GenerateSolution s = s\<lparr>trace := trace s @ [ShowErrorMessage reason]\<rparr>) \<and>
     (\<not> isDebugging s \<longrightarrow>
        step StartDebug s = s\<lparr>trace := trace s @ [ShowErrorMessage reason]\<rparr> \<and>
        step StartWithoutDebug s = s\<lparr>trace := trace s @ [ShowErrorMessage reason]\<rparr>)"
proof -
  from invalid_reason [OF assms] obtain reason where
    r: "first_failure (files s) (config s) = Some reason"
       "validation_text (validateConfig (files s) (config s)) = reason" by blast
  show ?thesis
    using assms r
    by (intro exI [of _ reason])
       (simp add: cleanSolution_def regenerateSolution_def generateSolution_def
          startDebug_def startWithoutDebug_def start_with_build_def effect_def)
qed

theorem invalid_config_stops_operation_witness:
  "\<not> valid (validateConfig (files (example_state\<lparr>config := example_config\<lparr>uePath := []\<rparr>\<rparr>))
                            (config (example_state\<lparr>config := example_config\<lparr>uePath := []\<rparr>\<rparr>))) \<and>
   step CleanSolution (example_state\<lparr>config := example_config\<lparr>uePath := []\<rparr>\<rparr>) =
     example_state\<lparr>config := example_config\<lparr>uePath := []\<rparr>, trace := [ShowErrorMessage UEPathNotSet]\<rparr> \<and>
   step StartDebug (example_state\<lparr>config := example_config\<lparr>uePath := []\<rparr>\<rparr>) =
     example_state\<lparr>config := example_config\<lparr>uePath := []\<rparr>, trace := [ShowErrorMessage UEPathNotSet]\<rparr>"
proof -
  let ?s = "example_state\<lparr>config := example_config\<lparr>uePath := []\<rparr>\<rparr>"
  have inv: "\<not> valid (validateConfig (files ?s) (config ?s))"
    by (simp add: validateConfig_def)
  have ff: "first_failure (files ?s) (config ?s) = Some UEPathNotSet"
    by (simp add: first_failure_def validation_checks_def)
  have idle: "\<not> isBuilding ?s" "\<not> isDebugging ?s" "trace ?s = []"
    by (simp_all add: example_state_def)
  from invalid_config_stops_operation [OF inv] ff idle inv show ?thesis
    by auto
qed

section \<open>Progress values\<close>

text \<open>
  Claim C1 on the example: \<open>generateSolution\<close> with a build script that prints
  \<open>5%\<close> and exits with code 0. The operation succeeds, and the progress values
  posted are 35, 5, 60.
\<close>

theorem generateSolution_progress_regresses:
  "progress_values (trace (run [GenerateSolution, StdoutData 0 ''5%'', Close 0 (Some 0)] example_state))
     = [35, 5, 60] \<and>
   last (trace (run [GenerateSolution, StdoutData 0 ''5%'', Close 0 (Some 0)] example_state))
     = PostMessage BuildSuccess"
  by code_simp

section \<open>The arguments of the build script\<close>

text \<open>
  Claim C5, as the specification states it, fails in the mode that generates
  the project files: with the build flavor \<open>Shipping\<close> configured,
  \<open>generateSolution\<close> runs the script with \<open>Development\<close> as its third argument.
\<close>

theorem generate_ignores_configured_flavor:
  "buildConfiguration (config example_state) = ''Shipping'' \<and>
   last (trace (step GenerateSolution example_state)) =
     Exec (bat_command (win ''C:/UE/Engine/Build/BatchFiles/Build.bat'')
             (build_script_arguments ''Game'' ''Development'' (win ''C:/Proj/Game.uproject'') True))
          (win ''C:/Proj'') 0 \<and>
   build_script_arguments ''Game'' ''Development'' (win ''C:/Proj/Game.uproject'') True ! 2 \<noteq> ''Shipping''"
  by code_simp

text \<open>
  Claim C5, amended. The compile mode, in \<open>BuildManager\<close> and in
  \<open>DebugManager\<close>, passes the build flavor of the configuration as the third
  argument; the mode that generates the project files passes \<open>Development\<close>
  whatever flavor is configured, and \<open>-GenerateProjectFiles\<close> last. The other
  arguments are those of the specification, and the script is not run when it
  does not exist.
\<close>

theorem build_script_invocations:
  "trace (outcome_state (b_generateProjectFiles cfg k s)) =
     trace s @ (if b_view s then [PostMessage (BuildProgress 35 GeneratingProjectFiles)] else []) @
     (if existsSync (files s) (buildScriptPath cfg)
      then [child_start (buildScriptPath cfg)
              (build_script_arguments (getProjectName (config s)) ''Development'' (projectPath cfg) True)
              (getProjectDir (config s)) (next_id s)]
      else []) \<and>
   trace (outcome_state (b_buildProject cfg k s)) =
     trace s @ (if b_view s then [PostMessage (BuildProgress 65 Compiling)] else []) @
     (if existsSync (files s) (buildScriptPath cfg)
      then [child_start (buildScriptPath cfg)
              (build_script_arguments (getProjectName (config s)) (buildConfiguration cfg) (projectPath cfg) False)
              (getProjectDir (config s)) (next_id s)]
      else []) \<and>
   trace (outcome_state (d_buildProject cfg k' s)) =
     trace s @
     (if existsSync (files s) (buildScriptPath cfg)
      then [child_start (buildScriptPath cfg)
              (build_script_arguments (getProjectName (config s)) (buildConfiguration cfg) (projectPath cfg) False)
              (getProjectDir (config s)) (next_id s)]
      else []) \<and>
   build_script_arguments projectName flavor path generate ! 2 = flavor"
  by (simp add: b_generateProjectFiles_def b_buildProject_def d_buildProject_def outcome_state_def
      b_executeProcess_def d_executeProcess_def buildScriptPath_def build_script_arguments_def
      generateProjectFiles_args_def buildProject_args_def b_postMessage_def effect_def Let_def)

section \<open>Runs and the output of a child process\<close>

lemma run_Nil [simp]: "run [] s = s"
  by (simp add: run_def)

lemma run_Cons [simp]: "run (e # evs) s = run evs (step e s)"
  by (simp add: run_def)

lemma run_append: "run (evs @ evs') s = run evs' (run evs s)"
  by (simp add: run_def)

lemma update_map_of: "map_of (AList.update h v xs) h = Some v"
  by (simp add: update_conv')

lemma b_output_step:
  assumes "map_of (b_procs s) h = Some p" and "map_of (d_procs s) h = None" and "is_output_of h e"
  shows "\<exists>p'. map_of (b_procs (step e s)) h = Some p' \<and> b_stderr p' = b_stderr p @ stderr_chunk h e \<and>
           b_waiting p' = b_waiting p \<and> map_of (d_procs (step e s)) h = None \<and>
           b_view (step e s) = b_view s"
  using assms
  by (cases e)
     (auto simp: b_onStdout_def b_onStderr_def d_onStdout_def d_onStderr_def Let_def
        b_postMessage_def effect_def update_conv')

lemma b_output_run:
  assumes "\<forall>e \<in> set evs. is_output_of h e"
    and "map_of (b_procs s) h = Some p" and "map_of (d_procs s) h = None"
  shows "\<exists>p'. map_of (b_procs (run evs s)) h = Some p' \<and>
           b_stderr p' = b_stderr p @ captured_stderr h evs \<and>
           b_waiting p' = b_waiting p \<and> map_of (d_procs (run evs s)) h = None \<and>
           b_view (run evs s) = b_view s"
  using assms
proof (induction evs arbitrary: s p)
  case Nil
  then show ?case by (simp add: captured_stderr_def)
next
  case (Cons e evs)
  from Cons.prems have o: "is_output_of h e" by simp
  from b_output_step [OF Cons.prems(2) Cons.prems(3) o] obtain p1 where
    p1: "map_of (b_procs (step e s)) h = Some p1" "b_stderr p1 = b_stderr p @ stderr_chunk h e"
        "b_waiting p1 = b_waiting p" "map_of (d_procs (step e s)) h = None"
        "b_view (step e s) = b_view s" by blast
  from Cons.prems have "\<forall>e \<in> set evs. is_output_of h e" by simp
  from Cons.IH [OF this p1(1) p1(4)] p1 show ?case
    by (auto simp: captured_stderr_def)
qed

lemma d_output_step:
  assumes "map_of (d_procs s) h = Some p" and "map_of (b_procs s) h = None" and "is_output_of h e"
  shows "\<exists>p'. map_of (d_procs (step e s)) h = Some p' \<and> d_stderr p' = d_stderr p @ stderr_chunk h e \<and>
           d_waiting p' = d_waiting p \<and> map_of (b_procs (step e s)) h = None \<and>
           d_view (step e s) = d_view s"
  using assms
  by (cases e)
     (auto simp: b_onStdout_def b_onStderr_def d_onStdout_def d_onStderr_def Let_def
        d_postMessage_def effect_def update_conv')

lemma d_output_run:
  assumes "\<forall>e \<in> set evs. is_output_of h e"
    and "map_of (d_procs s) h = Some p" and "map_of (b_procs s) h = None"
  shows "\<exists>p'. map_of (d_procs (run evs s)) h = Some p' \<and>
           d_stderr p' = d_stderr p @ captured_stderr h evs \<and>
           d_waiting p' = d_waiting p \<and> map_of (b_procs (run evs s)) h = None \<and>
           d_view (run evs s) = d_view s"
  using assms
proof (induction evs arbitrary: s p)
  case Nil
  then show ?case by (simp add: captured_stderr_def)
next
  case (Cons e evs)
  from Cons.prems have o: "is_output_of h e" by simp
  from d_output_step [OF Cons.prems(2) Cons.prems(3) o] obtain p1 where
    p1: "map_of (d_procs (step e s)) h = Some p1" "d_stderr p1 = d_stderr p @ stderr_chunk h e"
        "d_waiting p1 = d_waiting p" "map_of (b_procs (step e s)) h = None"
        "d_view (step e s) = d_view s" by blast
  from Cons.prems have "\<forall>e \<in> set evs. is_output_of h e" by simp
  from Cons.IH [OF this p1(1) p1(4)] p1 show ?case
    by (auto simp: captured_stderr_def)
qed

lemma b_postMessage_alt:
  "b_postMessage m s = s\<lparr>trace := trace s @ (if b_view s then [PostMessage m] else [])\<rparr>"
  by (simp add: b_postMessage_def effect_def)

lemma d_postMessage_alt:
  "d_postMessage m s = s\<lparr>trace := trace s @ (if d_view s then [PostMessage m] else [])\<rparr>"
  by (simp add: d_postMessage_def effect_def)

lemmas prim_defs = effect_def b_postMessage_alt d_postMessage_alt rm_def unlinkSync_def
  try_catch_def b_executeProcess_def d_executeProcess_def clean_catch_def operation_catch_def
  debug_catch_def Let_def

lemma b_resume_d_procs: "d_procs (b_resume k s) = d_procs s"
  by (cases k)
     (simp_all add: generateSolution_done_def regenerateSolution_done_def b_buildProject_def prim_defs)

lemma d_resume_b_procs: "b_procs (d_resume k s) = b_procs s"
  by (cases k) (simp_all add: d_resume_def prim_defs)

section \<open>The exit code of the build script\<close>

text \<open>
  Claim C6. A child process started by \<open>_executeProcess\<close> writes to stdout and
  stderr and then closes. With exit code 0 the promise resolves and the
  operation goes on with what follows the \<open>await\<close>; with any other exit code
  (or none) it stops at once: the run flag is cleared, the failure is shown
  and the failure message posted carries the exit code and all the text the
  child wrote to stderr. This holds in \<open>BuildManager\<close> and in \<open>DebugManager\<close>.
\<close>

theorem exit_code_decides:
  assumes "\<forall>e \<in> set evs. is_output_of h e" and "h = next_id s0"
  shows "(map_of (d_procs s0) h = None \<longrightarrow>
          (let s = run evs (b_executeProcess executable args cwd k s0);
               s' = s\<lparr>buildProcess := None, b_procs := AList.delete h (b_procs s)\<rparr>
           in step (Close h (Some 0)) s = b_resume k s' \<and>
              (code \<noteq> Some 0 \<longrightarrow>
                 step (Close h code) s =
                   s'\<lparr>isBuilding := False,
                      trace := trace s @ [ShowErrorMessage OperationFailed] @
                        (if b_view s0
                         then [PostMessage (BuildFailed (ExitMessage code (captured_stderr h evs)))]
                         else [])\<rparr>))) \<and>
         (map_of (b_procs s0) h = None \<longrightarrow>
          (let s = run evs (d_executeProcess executable args cwd k' s0);
               s' = s\<lparr>debugProcess := None, d_procs := AList.delete h (d_procs s)\<rparr>
           in step (Close h (Some 0)) s = d_resume k' s' \<and>
              (code \<noteq> Some 0 \<longrightarrow>
                 step (Close h code) s =
                   s'\<lparr>isDebugging := False,
                      trace := trace s @ [ShowErrorMessage LaunchFailed] @
                        (if d_view s0
                         then [PostMessage (DebugFailed (ExitMessage code (captured_stderr h evs)))]
                         else [])\<rparr>)))"
proof (intro conjI impI)
  assume d0: "map_of (d_procs s0) h = None"
  let ?s1 = "b_executeProcess executable args cwd k s0"
  let ?s = "run evs ?s1"
  have a: "map_of (b_procs ?s1) h =
      Some \<lparr>b_stdout = [], b_stderr = [], b_currentProgress = 0, b_startTime = now s0, b_waiting = Some k\<rparr>"
    and b: "map_of (d_procs ?s1) h = None" and v: "b_view ?s1 = b_view s0"
    using assms(2) d0 by (simp_all add: b_executeProcess_def effect_def Let_def)
  from b_output_run [OF assms(1) a b] obtain p where
    p: "map_of (b_procs ?s) h = Some p" "b_stderr p = captured_stderr h evs" "b_waiting p = Some k"
       "map_of (d_procs ?s) h = None" "b_view ?s = b_view s0"
    using v by auto
  have d: "d_onClose h c s' = s'" if "d_procs s' = d_procs ?s" for c s'
    using p(4) that by (simp add: d_onClose_def)
  have ok: "step (Close h (Some 0)) ?s =
      b_resume k (?s\<lparr>buildProcess := None, b_procs := AList.delete h (b_procs ?s)\<rparr>)"
    using p by (simp add: b_onClose_def d b_resume_d_procs)
  have ko: "step (Close h code) ?s =
      ?s\<lparr>buildProcess := None, b_procs := AList.delete h (b_procs ?s), isBuilding := False,
         trace := trace ?s @ [ShowErrorMessage OperationFailed] @
           (if b_view s0 then [PostMessage (BuildFailed (ExitMessage code (captured_stderr h evs)))] else [])\<rparr>"
    if "code \<noteq> Some 0"
    using p that by (simp add: b_onClose_def d operation_catch_def effect_def b_postMessage_alt Let_def)
  show "let s = ?s; s' = s\<lparr>buildProcess := None, b_procs := AList.delete h (b_procs s)\<rparr>
        in step (Close h (Some 0)) s = b_resume k s' \<and>
           (code \<noteq> Some 0 \<longrightarrow>
              step (Close h code) s =
                s'\<lparr>isBuilding := False,
                   trace := trace s @ [ShowErrorMessage OperationFailed] @
                     (if b_view s0
                      then [PostMessage (BuildFailed (ExitMessage code (captured_stderr h evs)))]
                      else [])\<rparr>)"
    using ok ko by (simp add: Let_def)
next
  assume b0: "map_of (b_procs s0) h = None"
  let ?s1 = "d_executeProcess executable args cwd k' s0"
  let ?s = "run evs ?s1"
  have a: "map_of (d_procs ?s1) h =
      Some \<lparr>d_stdout = [], d_stderr = [], d_currentProgress = 0, d_waiting = Some k'\<rparr>"
    and b: "map_of (b_procs ?s1) h = None" and v: "d_view ?s1 = d_view s0"
    using assms(2) b0 by (simp_all add: d_executeProcess_def effect_def Let_def)
  from d_output_run [OF assms(1) a b] obtain p where
    p: "map_of (d_procs ?s) h = Some p" "d_stderr p = captured_stderr h evs" "d_waiting p = Some k'"
       "map_of (b_procs ?s) h = None" "d_view ?s = d_view s0"
    using v by auto
  have bn: "b_onClose h c ?s = ?s" for c
    using p(4) by (simp add: b_onClose_def)
  have ok: "step (Close h (Some 0)) ?s =
      d_resume k' (?s\<lparr>debugProcess := None, d_procs := AList.delete h (d_procs ?s)\<rparr>)"
    using p by (simp add: d_onClose_def bn)
  have ko: "step (Close h code) ?s =
      ?s\<lparr>debugProcess := None, d_procs := AList.delete h (d_procs ?s), isDebugging := False,
         trace := trace ?s @ [ShowErrorMessage LaunchFailed] @
           (if d_view s0 then [PostMessage (DebugFailed (ExitMessage code (captured_stderr h evs)))] else [])\<rparr>"
    if "code \<noteq> Some 0"
    using p that by (simp add: d_onClose_def bn debug_catch_def effect_def d_postMessage_alt Let_def)
  show "let s = ?s; s' = s\<lparr>debugProcess := None, d_procs := AList.delete h (d_procs s)\<rparr>
        in step (Close h (Some 0)) s = d_resume k' s' \<and>
           (code \<noteq> Some 0 \<longrightarrow>
              step (Close h code) s =
                s'\<lparr>isDebugging := False,
                   trace := trace s @ [ShowErrorMessage LaunchFailed] @
                     (if d_view s0
                      then [PostMessage (DebugFailed (ExitMessage code (captured_stderr h evs)))]
                      else [])\<rparr>)"
    using ok ko by (simp add: Let_def)
qed

text \<open>
  On the example: the script started by \<open>generateSolution\<close> writes \<open>5%\<close> to
  stdout and \<open>boom\<close> to stderr and exits with code 1.
\<close>

theorem exit_code_decides_witness:
  "trace (run [GenerateSolution, StdoutData 0 ''5%'', StderrData 0 ''boom'', Close 0 (Some 1)] example_state) =
   trace (run [GenerateSolution, StdoutData 0 ''5%'', StderrData 0 ''boom''] example_state) @
     [ShowErrorMessage OperationFailed, PostMessage (BuildFailed (ExitMessage (Some 1) ''boom''))]"
proof -
  let ?s0 = "example_state\<lparr>isBuilding := True,
      files := files example_state - {win ''C:/Proj/Game.sln''},
      trace := [PostMessage BuildStarted, UnlinkSync (win ''C:/Proj/Game.sln''),
                PostMessage (BuildProgress 35 GeneratingProjectFiles)]\<rparr>"
  let ?exe = "win ''C:/UE/Engine/Build/BatchFiles/Build.bat''"
  let ?args = "generateProjectFiles_args ''Game'' (win ''C:/Proj/Game.uproject'')"
  let ?evs = "[StdoutData 0 ''5%'', StderrData 0 ''boom'']"
  have start: "step GenerateSolution example_state =
      b_executeProcess ?exe ?args (win ''C:/Proj'') GenerateSolutionK ?s0"
    by code_simp
  have out: "\<forall>e \<in> set ?evs. is_output_of 0 e" by simp
  have h: "(0::nat) = next_id ?s0" "map_of (d_procs ?s0) 0 = None" "b_view ?s0"
    by (simp_all add: example_state_def)
  have cap: "captured_stderr 0 ?evs = ''boom''" by (simp add: captured_stderr_def)
  from exit_code_decides [OF out h(1), of ?exe ?args "win ''C:/Proj''" GenerateSolutionK "Some 1"] h(2,3) cap
  have "step (Close 0 (Some 1)) (run ?evs (b_executeProcess ?exe ?args (win ''C:/Proj'') GenerateSolutionK ?s0)) =
        (run ?evs (b_executeProcess ?exe ?args (win ''C:/Proj'') GenerateSolutionK ?s0))
          \<lparr>buildProcess := None,
           b_procs := AList.delete 0 (b_procs (run ?evs (b_executeProcess ?exe ?args (win ''C:/Proj'') GenerateSolutionK ?s0))),
           isBuilding := False,
           trace := trace (run ?evs (b_executeProcess ?exe ?args (win ''C:/Proj'') GenerateSolutionK ?s0)) @
             [ShowErrorMessage OperationFailed, PostMessage (BuildFailed (ExitMessage (Some 1) ''boom''))]\<rparr>"
    by (simp add: Let_def)
  then have "trace (step (Close 0 (Some 1)) (run ?evs (step GenerateSolution example_state))) =
        trace (run ?evs (step GenerateSolution example_state)) @
             [ShowErrorMessage OperationFailed, PostMessage (BuildFailed (ExitMessage (Some 1) ''boom''))]"
    unfolding start by simp
  then show ?thesis
    by (simp add: run_append [of "[GenerateSolution, StdoutData 0 ''5%'', StderrData 0 ''boom'']" "[Close 0 (Some 1)]", simplified])
qed

section \<open>One operation at a time\<close>

text \<open>Counting the entries of a table that satisfy a test, under update and delete.\<close>

lemma count_update:
  "map_of xs h = Some p0 \<Longrightarrow>
     length (filter W (AList.update h p xs)) + (if W (h, p0) then 1 else 0) =
     length (filter W xs) + (if W (h, p) then 1 else 0)"
  by (induction xs) (auto split: if_splits)

lemma count_delete:
  "map_of xs h = Some p0 \<Longrightarrow> distinct (map fst xs) \<Longrightarrow>
     length (filter W (AList.delete h xs)) + (if W (h, p0) then 1 else 0) = length (filter W xs)"
proof (induction xs)
  case Nil
  then show ?case by simp
next
  case (Cons x xs)
  show ?case
  proof (cases "fst x = h")
    case True
    with Cons.prems have "h \<notin> fst ` set xs" "x = (h, p0)" by (auto simp: image_iff)
    then have "AList.delete h xs = xs" by (simp add: delete_id)
    with \<open>x = (h, p0)\<close> show ?thesis by simp
  next
    case False
    with Cons show ?thesis by (cases x) auto
  qed
qed

lemma keys_update:
  "map_of xs h = Some p0 \<Longrightarrow> map fst (AList.update h p xs) = map fst xs"
  by (induction xs) (auto split: if_splits)

lemma keys_delete: "fst ` set (AList.delete h xs) \<subseteq> fst ` set xs"
  by (induction xs) auto

lemma b_running_b_postMessage [simp]: "b_running (b_postMessage m s) = b_running s"
  by (simp add: b_running_def b_inflight_def b_postMessage_alt)

lemma b_running_effect [simp]: "b_running (effect a s) = b_running s"
  by (simp add: b_running_def b_inflight_def effect_def)

lemma b_running_files [simp]: "b_running (s\<lparr>files := f\<rparr>) = b_running s"
  by (simp add: b_running_def b_inflight_def)

lemma b_running_clean_catch: "b_running s \<Longrightarrow> build_inv (clean_catch e s)"
  by (simp add: b_running_def build_inv_def b_inflight_def clean_catch_def effect_def
      b_postMessage_alt Let_def)

lemma b_running_operation_catch: "b_running s \<Longrightarrow> build_inv (operation_catch e s)"
  by (simp add: b_running_def build_inv_def b_inflight_def operation_catch_def effect_def
      b_postMessage_alt Let_def)

lemma b_running_rm: "b_running s \<Longrightarrow> build_inv (rm p k s)"
  by (auto simp: b_running_def build_inv_def b_inflight_def rm_def effect_def Let_def less_Suc_eq)

lemma b_running_b_executeProcess: "b_running s \<Longrightarrow> build_inv (b_executeProcess exe args cwd k s)"
  by (auto simp: b_running_def build_inv_def b_inflight_def b_executeProcess_def effect_def Let_def
      less_Suc_eq)

lemma outcome_ok_try_catch: "outcome_ok r \<Longrightarrow> build_inv (try_catch r operation_catch)"
  by (auto simp: outcome_ok_def try_catch_def b_running_operation_catch split: sum.splits)

lemma b_running_cleanSolution_done: "b_running s \<Longrightarrow> build_inv (cleanSolution_done s)"
  by (simp add: b_running_def build_inv_def b_inflight_def cleanSolution_done_def effect_def
      b_postMessage_alt Let_def)

lemma b_running_generateSolution_done: "b_running s \<Longrightarrow> build_inv (generateSolution_done s)"
  by (simp add: b_running_def build_inv_def b_inflight_def generateSolution_done_def effect_def
      b_postMessage_alt Let_def)

lemma b_running_regenerateSolution_done: "b_running s \<Longrightarrow> build_inv (regenerateSolution_done s)"
  by (simp add: b_running_def build_inv_def b_inflight_def regenerateSolution_done_def effect_def
      b_postMessage_alt Let_def)

lemma b_running_cleanSolution_staged: "b_running s \<Longrightarrow> build_inv (cleanSolution_staged d s)"
  by (simp add: cleanSolution_staged_def Let_def b_running_rm b_running_cleanSolution_done)

lemma b_running_cleanSolution_binaries: "b_running s \<Longrightarrow> build_inv (cleanSolution_binaries d s)"
  by (simp add: cleanSolution_binaries_def Let_def b_running_rm b_running_cleanSolution_staged)

lemma b_running_cleanSolution_intermediate:
  "b_running s \<Longrightarrow> build_inv (cleanSolution_intermediate d s)"
  by (simp add: cleanSolution_intermediate_def Let_def b_running_rm b_running_cleanSolution_binaries)

lemma outcome_ok_b_buildProject: "b_running s \<Longrightarrow> outcome_ok (b_buildProject cfg k s)"
  by (simp add: b_buildProject_def outcome_ok_def Let_def b_running_b_executeProcess)

lemma outcome_ok_b_generateProjectFiles:
  "b_running s \<Longrightarrow> outcome_ok (b_generateProjectFiles cfg k s)"
  by (simp add: b_generateProjectFiles_def outcome_ok_def Let_def b_running_b_executeProcess)

lemma outcome_ok_delete_solution_then_generate:
  "b_running s \<Longrightarrow> outcome_ok (delete_solution_then_generate cfg sln k s)"
  by (auto simp: delete_solution_then_generate_def unlinkSync_def Let_def
      outcome_ok_b_generateProjectFiles
      intro: outcome_ok_b_generateProjectFiles simp: outcome_ok_def [of "Inl x" for x]
      split: option.splits)

lemma b_running_regenerate_after_clean:
  "b_running s \<Longrightarrow> build_inv (regenerate_after_clean cfg sln s)"
  by (simp add: regenerate_after_clean_def outcome_ok_try_catch outcome_ok_delete_solution_then_generate)

lemma b_running_cleanSolutionInternal_staged:
  "b_running s \<Longrightarrow> build_inv (cleanSolutionInternal_staged cfg d sln s)"
  by (simp add: cleanSolutionInternal_staged_def Let_def b_running_rm b_running_regenerate_after_clean)

lemma b_running_cleanSolutionInternal_binaries:
  "b_running s \<Longrightarrow> build_inv (cleanSolutionInternal_binaries cfg d sln s)"
  by (simp add: cleanSolutionInternal_binaries_def Let_def b_running_rm
      b_running_cleanSolutionInternal_staged)

lemma b_running_cleanSolutionInternal:
  "b_running s \<Longrightarrow> build_inv (cleanSolutionInternal cfg d sln s)"
  by (simp add: cleanSolutionInternal_def Let_def b_running_rm
      b_running_cleanSolutionInternal_binaries)

lemma b_running_b_resume: "b_running s \<Longrightarrow> build_inv (b_resume k s)"
  by (cases k)
     (simp_all add: Let_def b_running_generateSolution_done b_running_regenerateSolution_done
        outcome_ok_try_catch outcome_ok_b_buildProject)

lemma b_running_rm_resume: "b_running s \<Longrightarrow> build_inv (rm_resume k s)"
  by (cases k)
     (simp_all add: b_running_cleanSolution_binaries b_running_cleanSolution_staged
        b_running_cleanSolution_done b_running_cleanSolutionInternal_binaries
        b_running_cleanSolutionInternal_staged b_running_regenerate_after_clean)

lemma b_running_rm_catch: "b_running s \<Longrightarrow> build_inv (rm_catch k e s)"
  by (cases k) (simp_all add: b_running_clean_catch b_running_operation_catch)

lemma d_untouched_refl [simp]: "d_untouched s s"
  by (simp add: d_untouched_def)

lemma b_untouched_refl [simp]: "b_untouched s s"
  by (simp add: b_untouched_def)

lemma d_untouched_prims [simp]:
  "d_untouched s0 (effect a s) = d_untouched s0 s"
  "d_untouched s0 (b_postMessage m s) = d_untouched s0 s"
  "d_untouched s0 (s\<lparr>isBuilding := b\<rparr>) = d_untouched s0 s"
  "d_untouched s0 (s\<lparr>buildProcess := bp\<rparr>) = d_untouched s0 s"
  "d_untouched s0 (s\<lparr>b_rms := r\<rparr>) = d_untouched s0 s"
  "d_untouched s0 (s\<lparr>b_procs := ps\<rparr>) = d_untouched s0 s"
  "d_untouched s0 (s\<lparr>files := f\<rparr>) = d_untouched s0 s"
  "d_untouched s0 (s\<lparr>config := c\<rparr>) = d_untouched s0 s"
  "d_untouched s0 (s\<lparr>now := n\<rparr>) = d_untouched s0 s"
  by (simp_all add: d_untouched_def effect_def b_postMessage_alt)

lemma b_untouched_prims [simp]:
  "b_untouched s0 (effect a s) = b_untouched s0 s"
  "b_untouched s0 (d_postMessage m s) = b_untouched s0 s"
  "b_untouched s0 (s\<lparr>isDebugging := b\<rparr>) = b_untouched s0 s"
  "b_untouched s0 (s\<lparr>debugProcess := bp\<rparr>) = b_untouched s0 s"
  "b_untouched s0 (s\<lparr>d_procs := ps\<rparr>) = b_untouched s0 s"
  "b_untouched s0 (s\<lparr>files := f\<rparr>) = b_untouched s0 s"
  "b_untouched s0 (s\<lparr>config := c\<rparr>) = b_untouched s0 s"
  "b_untouched s0 (s\<lparr>now := n\<rparr>) = b_untouched s0 s"
  by (simp_all add: b_untouched_def effect_def d_postMessage_alt)

lemma d_untouched_rm: "d_untouched s0 s \<Longrightarrow> d_untouched s0 (rm p k s)"
  by (simp add: d_untouched_def rm_def effect_def Let_def)

lemma d_untouched_b_executeProcess:
  "d_untouched s0 s \<Longrightarrow> d_untouched s0 (b_executeProcess exe args cwd k s)"
  by (simp add: d_untouched_def b_executeProcess_def effect_def Let_def)

lemma b_untouched_d_executeProcess:
  "b_untouched s0 s \<Longrightarrow> b_untouched s0 (d_executeProcess exe args cwd k s)"
  by (simp add: b_untouched_def d_executeProcess_def effect_def Let_def)

lemma d_untouched_catch:
  "d_untouched s0 s \<Longrightarrow> d_untouched s0 (clean_catch e s)"
  "d_untouched s0 s \<Longrightarrow> d_untouched s0 (operation_catch e s)"
  by (simp_all add: clean_catch_def operation_catch_def Let_def)

lemma b_untouched_debug_catch: "b_untouched s0 s \<Longrightarrow> b_untouched s0 (debug_catch e s)"
  by (simp add: debug_catch_def Let_def)

lemma d_untouched_done:
  "d_untouched s0 s \<Longrightarrow> d_untouched s0 (cleanSolution_done s)"
  "d_untouched s0 s \<Longrightarrow> d_untouched s0 (generateSolution_done s)"
  "d_untouched s0 s \<Longrightarrow> d_untouched s0 (regenerateSolution_done s)"
  by (simp_all add: cleanSolution_done_def generateSolution_done_def regenerateSolution_done_def Let_def)

lemma d_untouched_cleanSolution_staged:
  "d_untouched s0 s \<Longrightarrow> d_untouched s0 (cleanSolution_staged d s)"
  by (simp add: cleanSolution_staged_def Let_def d_untouched_rm d_untouched_done)

lemma d_untouched_cleanSolution_binaries:
  "d_untouched s0 s \<Longrightarrow> d_untouched s0 (cleanSolution_binaries d s)"
  by (simp add: cleanSolution_binaries_def Let_def d_untouched_rm d_untouched_cleanSolution_staged)

lemma d_untouched_cleanSolution_intermediate:
  "d_untouched s0 s \<Longrightarrow> d_untouched s0 (cleanSolution_intermediate d s)"
  by (simp add: cleanSolution_intermediate_def Let_def d_untouched_rm d_untouched_cleanSolution_binaries)

lemma d_untouched_try_catch:
  "d_untouched_outcome s0 r \<Longrightarrow> d_untouched s0 (try_catch r operation_catch)"
  by (auto simp: d_untouched_outcome_def outcome_state_def try_catch_def d_untouched_catch
      split: sum.splits)

lemma d_untouched_b_buildProject:
  "d_untouched s0 s \<Longrightarrow> d_untouched_outcome s0 (b_buildProject cfg k s)"
  by (simp add: d_untouched_outcome_def outcome_state_def b_buildProject_def Let_def
      d_untouched_b_executeProcess)

lemma d_untouched_b_generateProjectFiles:
  "d_untouched s0 s \<Longrightarrow> d_untouched_outcome s0 (b_generateProjectFiles cfg k s)"
  by (simp add: d_untouched_outcome_def outcome_state_def b_generateProjectFiles_def Let_def
      d_untouched_b_executeProcess)

lemma d_untouched_delete_solution_then_generate:
  "d_untouched s0 s \<Longrightarrow> d_untouched_outcome s0 (delete_solution_then_generate cfg sln k s)"
  by (auto simp: delete_solution_then_generate_def unlinkSync_def Let_def
      d_untouched_b_generateProjectFiles split: option.splits)
     (simp add: d_untouched_outcome_def outcome_state_def)

lemma d_untouched_regenerate_after_clean:
  "d_untouched s0 s \<Longrightarrow> d_untouched s0 (regenerate_after_clean cfg sln s)"
  by (simp add: regenerate_after_clean_def d_untouched_try_catch
      d_untouched_delete_solution_then_generate)

lemma d_untouched_cleanSolutionInternal_staged:
  "d_untouched s0 s \<Longrightarrow> d_untouched s0 (cleanSolutionInternal_staged cfg d sln s)"
  by (simp add: cleanSolutionInternal_staged_def Let_def d_untouched_rm
      d_untouched_regenerate_after_clean)

lemma d_untouched_cleanSolutionInternal_binaries:
  "d_untouched s0 s \<Longrightarrow> d_untouched s0 (cleanSolutionInternal_binaries cfg d sln s)"
  by (simp add: cleanSolutionInternal_binaries_def Let_def d_untouched_rm
      d_untouched_cleanSolutionInternal_staged)

lemma d_untouched_cleanSolutionInternal:
  "d_untouched s0 s \<Longrightarrow> d_untouched s0 (cleanSolutionInternal cfg d sln s)"
  by (simp add: cleanSolutionInternal_def Let_def d_untouched_rm
      d_untouched_cleanSolutionInternal_binaries)

lemma d_untouched_b_resume: "d_untouched s0 s \<Longrightarrow> d_untouched s0 (b_resume k s)"
  by (cases k)
     (simp_all add: Let_def d_untouched_done d_untouched_try_catch d_untouched_b_buildProject)

lemma d_untouched_rm_resume: "d_untouched s0 s \<Longrightarrow> d_untouched s0 (rm_resume k s)"
  by (cases k)
     (simp_all add: d_untouched_cleanSolution_binaries d_untouched_cleanSolution_staged
        d_untouched_done d_untouched_cleanSolutionInternal_binaries
        d_untouched_cleanSolutionInternal_staged d_untouched_regenerate_after_clean)

lemma d_untouched_rm_catch: "d_untouched s0 s \<Longrightarrow> d_untouched s0 (rm_catch k e s)"
  by (cases k) (simp_all add: d_untouched_catch)

lemma d_untouched_build_step:
  "d_untouched s (cleanSolution s)" "d_untouched s (regenerateSolution s)"
  "d_untouched s (generateSolution s)" "d_untouched s (cancelBuild s)"
  "d_untouched s (onRmSettled h r s)" "d_untouched s (b_onStdout h t s)"
  "d_untouched s (b_onStderr h t s)" "d_untouched s (b_onClose h c s)"
  "d_untouched s (b_onError h e s)"
  by (simp_all add: cleanSolution_def regenerateSolution_def generateSolution_def cancelBuild_def
      onRmSettled_def b_onStdout_def b_onStderr_def b_onClose_def b_onError_def Let_def
      d_untouched_cleanSolution_intermediate d_untouched_cleanSolutionInternal
      d_untouched_try_catch d_untouched_delete_solution_then_generate
      d_untouched_rm_resume d_untouched_rm_catch d_untouched_b_resume d_untouched_catch
      split: option.splits prod.splits)

lemma b_untouched_d_resume: "b_untouched s0 s \<Longrightarrow> b_untouched s0 (d_resume k s)"
  by (cases k) (simp_all add: d_resume_def try_catch_def Let_def b_untouched_debug_catch)

lemma b_untouched_debug_step:
  "b_untouched s (startDebug s)" "b_untouched s (startWithoutDebug s)"
  "b_untouched s (launchProject s)" "b_untouched s (cancelDebug s)"
  "b_untouched s (d_onStdout h t s)" "b_untouched s (d_onStderr h t s)"
  "b_untouched s (d_onClose h c s)" "b_untouched s (d_onError h e s)"
  "b_untouched s (updateConfig p s)" "d_untouched s (updateConfig p s)"
  by (simp_all add: startDebug_def startWithoutDebug_def start_with_build_def launchProject_def
      cancelDebug_def d_onStdout_def d_onStderr_def d_onClose_def d_onError_def d_buildProject_def
      updateConfig_def sendConfigToWebview_def try_catch_def Let_def
      b_untouched_d_executeProcess b_untouched_debug_catch b_untouched_d_resume
      split: option.splits)

lemma build_inv_untouched: "b_untouched s s' \<Longrightarrow> build_inv s \<Longrightarrow> build_inv s'"
  by (auto simp: b_untouched_def build_inv_def b_inflight_def)

lemma debug_inv_untouched: "d_untouched s s' \<Longrightarrow> debug_inv s \<Longrightarrow> debug_inv s'"
  by (auto simp: d_untouched_def debug_inv_def d_inflight_def)

lemma build_inv_trace [simp]:
  "build_inv (effect a s) = build_inv s" "build_inv (b_postMessage m s) = build_inv s"
  by (simp_all add: build_inv_def b_inflight_def effect_def b_postMessage_alt)

lemma debug_inv_trace [simp]:
  "debug_inv (effect a s) = debug_inv s" "debug_inv (d_postMessage m s) = debug_inv s"
  by (simp_all add: debug_inv_def d_inflight_def effect_def d_postMessage_alt)

lemma build_inv_start: "build_inv s \<Longrightarrow> \<not> isBuilding s \<Longrightarrow> b_running (s\<lparr>isBuilding := True\<rparr>)"
  by (simp add: build_inv_def b_running_def b_inflight_def)

lemma build_inv_requests:
  assumes "build_inv s"
  shows "build_inv (cleanSolution s)" "build_inv (regenerateSolution s)" "build_inv (generateSolution s)"
  using assms
  by (simp_all add: cleanSolution_def regenerateSolution_def generateSolution_def Let_def
      build_inv_start b_running_cleanSolution_intermediate b_running_cleanSolutionInternal
      outcome_ok_try_catch outcome_ok_delete_solution_then_generate)

lemma build_inv_onRmSettled: "build_inv s \<Longrightarrow> build_inv (onRmSettled h r s)"
proof (cases "map_of (b_rms s) h")
  case None
  then show "build_inv s \<Longrightarrow> build_inv (onRmSettled h r s)" by (simp add: onRmSettled_def)
next
  case (Some dk)
  assume inv: "build_inv s"
  obtain dir k where dk: "dk = (dir, k)" by (cases dk)
  from Some obtain x xs where x: "b_rms s = x # xs" by (cases "b_rms s") auto
  with inv have one: "xs = []" "isBuilding s"
    "filter (\<lambda>hp. b_waiting (snd hp) \<noteq> None) (b_procs s) = []"
    by (auto simp: build_inv_def b_inflight_def split: if_splits)
  with Some x have "AList.delete h (b_rms s) = []" by (cases x) (auto split: if_splits)
  with inv one x have run: "b_running (s\<lparr>b_rms := AList.delete h (b_rms s)\<rparr>)"
    by (simp add: build_inv_def b_running_def b_inflight_def)
  show "build_inv (onRmSettled h r s)"
    using Some dk run
    by (cases r) (simp_all add: onRmSettled_def Let_def b_running_rm_resume b_running_rm_catch)
qed

lemma keys_update_bound:
  "map_of xs h = Some p0 \<Longrightarrow> \<forall>x \<in> set xs. fst x < (n::nat) \<Longrightarrow>
     \<forall>x \<in> set (AList.update h p xs). fst x < n"
  by (induction xs) (auto split: if_splits)

lemma keys_delete_bound:
  "\<forall>x \<in> set xs. fst x < (n::nat) \<Longrightarrow> \<forall>x \<in> set (AList.delete h xs). fst x < n"
  by (induction xs) auto

lemma build_inv_update:
  assumes "build_inv s" and "map_of (b_procs s) h = Some p0" and "b_waiting p = b_waiting p0"
  shows "build_inv (s\<lparr>b_procs := AList.update h p (b_procs s)\<rparr>)"
proof -
  have c: "length (filter (\<lambda>hp. b_waiting (snd hp) \<noteq> None) (AList.update h p (b_procs s))) =
           length (filter (\<lambda>hp. b_waiting (snd hp) \<noteq> None) (b_procs s))"
    using count_update [OF assms(2), of "\<lambda>hp. b_waiting (snd hp) \<noteq> None" p] assms(3) by simp
  show ?thesis
    using assms(1) c
    using keys_update_bound [OF assms(2), of "next_id s" p]
    by (simp add: build_inv_def b_inflight_def keys_update [OF assms(2)])
qed

lemma build_inv_output:
  "build_inv s \<Longrightarrow> build_inv (b_onStdout h t s)" "build_inv s \<Longrightarrow> build_inv (b_onStderr h t s)"
  by (simp_all add: b_onStdout_def b_onStderr_def Let_def build_inv_update split: option.splits)

lemma nat_last_one:
  "(a::nat) + b = (if flag then 1 else 0) \<Longrightarrow> c + 1 = b \<Longrightarrow> flag \<and> a = 0 \<and> c = 0"
  by (cases flag) auto

lemma last_one_leaves:
  assumes "length xs + length ys = (if flag then 1 else 0)" and "length zs + 1 = length ys"
  shows "flag \<and> xs = [] \<and> zs = []"
  using nat_last_one [OF assms] by simp

lemma build_inv_onClose: "build_inv s \<Longrightarrow> build_inv (b_onClose h c s)"
proof (cases "map_of (b_procs s) h")
  case None
  then show "build_inv s \<Longrightarrow> build_inv (b_onClose h c s)" by (simp add: b_onClose_def)
next
  case (Some p)
  assume inv: "build_inv s"
  let ?W = "\<lambda>hp. b_waiting (snd hp) \<noteq> None"
  let ?s1 = "s\<lparr>buildProcess := None, b_procs := AList.delete h (b_procs s)\<rparr>"
  from inv have dist: "distinct (map fst (b_procs s))" by (simp add: build_inv_def)
  note cnt = count_delete [OF Some dist, of ?W]
  from inv have bound: "\<forall>x \<in> set (AList.delete h (b_procs s)). fst x < next_id s"
    using keys_delete_bound [of "b_procs s" "next_id s" h] by (simp add: build_inv_def)
  show "build_inv (b_onClose h c s)"
  proof (cases "b_waiting p")
    case None
    with cnt inv bound have "build_inv ?s1"
      by (simp add: build_inv_def b_inflight_def distinct_delete)
    with Some None show ?thesis by (simp add: b_onClose_def Let_def)
  next
    case (Some k)
    from inv have "length (b_rms s) + length (filter ?W (b_procs s)) = (if isBuilding s then 1 else 0)"
      by (simp add: build_inv_def b_inflight_def)
    moreover from cnt Some have
      "length (filter ?W (AList.delete h (b_procs s))) + 1 = length (filter ?W (b_procs s))" by simp
    ultimately have "isBuilding s \<and> b_rms s = [] \<and> filter ?W (AList.delete h (b_procs s)) = []"
      by (rule last_one_leaves)
    with inv bound have "b_running ?s1"
      by (simp add: build_inv_def b_running_def b_inflight_def distinct_delete)
    with \<open>map_of (b_procs s) h = Some p\<close> Some show ?thesis
      by (simp add: b_onClose_def Let_def b_running_b_resume b_running_operation_catch)
  qed
qed

lemma build_inv_onError: "build_inv s \<Longrightarrow> build_inv (b_onError h e s)"
proof (cases "map_of (b_procs s) h")
  case None
  then show "build_inv s \<Longrightarrow> build_inv (b_onError h e s)" by (simp add: b_onError_def)
next
  case (Some p)
  assume inv: "build_inv s"
  let ?W = "\<lambda>hp. b_waiting (snd hp) \<noteq> None"
  let ?s1 = "s\<lparr>buildProcess := None, b_procs := AList.update h (p\<lparr>b_waiting := None\<rparr>) (b_procs s)\<rparr>"
  note cnt = count_update [OF Some, of ?W "p\<lparr>b_waiting := None\<rparr>"]
  note bound = keys_update_bound [OF Some, of "next_id s" "p\<lparr>b_waiting := None\<rparr>"]
  note keys = keys_update [OF Some, of "p\<lparr>b_waiting := None\<rparr>"]
  show "build_inv (b_onError h e s)"
  proof (cases "b_waiting p")
    case None
    with cnt inv bound keys have "build_inv ?s1"
      by (simp add: build_inv_def b_inflight_def)
    with Some None show ?thesis by (simp add: b_onError_def Let_def)
  next
    case (Some k)
    from inv have "length (b_rms s) + length (filter ?W (b_procs s)) = (if isBuilding s then 1 else 0)"
      by (simp add: build_inv_def b_inflight_def)
    moreover from cnt Some have
      "length (filter ?W (AList.update h (p\<lparr>b_waiting := None\<rparr>) (b_procs s))) + 1 =
       length (filter ?W (b_procs s))" by simp
    ultimately have "isBuilding s \<and> b_rms s = [] \<and>
        filter ?W (AList.update h (p\<lparr>b_waiting := None\<rparr>) (b_procs s)) = []"
      by (rule last_one_leaves)
    with inv bound keys have "b_running ?s1"
      by (simp add: build_inv_def b_running_def b_inflight_def)
    with \<open>map_of (b_procs s) h = Some p\<close> Some show ?thesis
      by (simp add: b_onError_def Let_def b_running_operation_catch)
  qed
qed

lemma build_inv_env [simp]:
  "build_inv (s\<lparr>now := n\<rparr>) = build_inv s" "build_inv (s\<lparr>files := f\<rparr>) = build_inv s"
  by (simp_all add: build_inv_def b_inflight_def)

lemma d_running_trace [simp]:
  "d_running (d_postMessage m s) = d_running s" "d_running (effect a s) = d_running s"
  by (simp_all add: d_running_def d_inflight_def d_postMessage_alt effect_def)

lemma d_running_debug_catch: "d_running s \<Longrightarrow> debug_inv (debug_catch e s)"
  by (simp add: d_running_def debug_inv_def d_inflight_def debug_catch_def effect_def
      d_postMessage_alt Let_def)

lemma d_running_d_executeProcess: "d_running s \<Longrightarrow> debug_inv (d_executeProcess exe args cwd k s)"
  by (auto simp: d_running_def debug_inv_def d_inflight_def d_executeProcess_def effect_def Let_def
      less_Suc_eq)

lemma d_running_d_resume: "d_running s \<Longrightarrow> debug_inv (d_resume k s)"
  by (cases k)
     (simp_all add: d_resume_def try_catch_def Let_def d_running_debug_catch,
      simp_all add: d_running_def debug_inv_def d_inflight_def effect_def d_postMessage_alt)

lemma debug_inv_start: "debug_inv s \<Longrightarrow> \<not> isDebugging s \<Longrightarrow> d_running (s\<lparr>isDebugging := True\<rparr>)"
  by (simp add: debug_inv_def d_running_def d_inflight_def)

lemma debug_inv_requests:
  assumes "debug_inv s"
  shows "debug_inv (startDebug s)" "debug_inv (startWithoutDebug s)" "debug_inv (launchProject s)"
  using assms
  by (simp_all add: startDebug_def startWithoutDebug_def start_with_build_def launchProject_def
      d_buildProject_def try_catch_def Let_def debug_inv_start d_running_debug_catch
      d_running_d_executeProcess)

lemma debug_inv_update:
  assumes "debug_inv s" and "map_of (d_procs s) h = Some p0" and "d_waiting p = d_waiting p0"
  shows "debug_inv (s\<lparr>d_procs := AList.update h p (d_procs s)\<rparr>)"
proof -
  have c: "length (filter (\<lambda>hp. d_waiting (snd hp) \<noteq> None) (AList.update h p (d_procs s))) =
           length (filter (\<lambda>hp. d_waiting (snd hp) \<noteq> None) (d_procs s))"
    using count_update [OF assms(2), of "\<lambda>hp. d_waiting (snd hp) \<noteq> None" p] assms(3) by simp
  show ?thesis
    using assms(1) c
    using keys_update_bound [OF assms(2), of "next_id s" p]
    by (simp add: debug_inv_def d_inflight_def keys_update [OF assms(2)])
qed

lemma debug_inv_output:
  "debug_inv s \<Longrightarrow> debug_inv (d_onStdout h t s)" "debug_inv s \<Longrightarrow> debug_inv (d_onStderr h t s)"
  by (simp_all add: d_onStdout_def d_onStderr_def Let_def debug_inv_update split: option.splits)

lemma debug_inv_onClose: "debug_inv s \<Longrightarrow> debug_inv (d_onClose h c s)"
proof (cases "map_of (d_procs s) h")
  case None
  then show "debug_inv s \<Longrightarrow> debug_inv (d_onClose h c s)" by (simp add: d_onClose_def)
next
  case (Some p)
  assume inv: "debug_inv s"
  let ?W = "\<lambda>hp. d_waiting (snd hp) \<noteq> None"
  let ?s1 = "s\<lparr>debugProcess := None, d_procs := AList.delete h (d_procs s)\<rparr>"
  from inv have dist: "distinct (map fst (d_procs s))" by (simp add: debug_inv_def)
  note cnt = count_delete [OF Some dist, of ?W]
  from inv have bound: "\<forall>x \<in> set (AList.delete h (d_procs s)). fst x < next_id s"
    using keys_delete_bound [of "d_procs s" "next_id s" h] by (simp add: debug_inv_def)
  show "debug_inv (d_onClose h c s)"
  proof (cases "d_waiting p")
    case None
    with cnt inv bound have "debug_inv ?s1"
      by (simp add: debug_inv_def d_inflight_def distinct_delete)
    with Some None show ?thesis by (simp add: d_onClose_def Let_def)
  next
    case (Some k)
    from inv have "length ([] :: unit list) + length (filter ?W (d_procs s)) =
        (if isDebugging s then 1 else 0)"
      by (simp add: debug_inv_def d_inflight_def)
    moreover from cnt Some have
      "length (filter ?W (AList.delete h (d_procs s))) + 1 = length (filter ?W (d_procs s))" by simp
    ultimately have "isDebugging s \<and> ([] :: unit list) = [] \<and> filter ?W (AList.delete h (d_procs s)) = []"
      by (rule last_one_leaves)
    with inv bound have "d_running ?s1"
      by (simp add: debug_inv_def d_running_def d_inflight_def distinct_delete)
    with \<open>map_of (d_procs s) h = Some p\<close> Some show ?thesis
      by (simp add: d_onClose_def Let_def d_running_d_resume d_running_debug_catch)
  qed
qed

lemma debug_inv_onError: "debug_inv s \<Longrightarrow> debug_inv (d_onError h e s)"
proof (cases "map_of (d_procs s) h")
  case None
  then show "debug_inv s \<Longrightarrow> debug_inv (d_onError h e s)" by (simp add: d_onError_def)
next
  case (Some p)
  assume inv: "debug_inv s"
  let ?W = "\<lambda>hp. d_waiting (snd hp) \<noteq> None"
  let ?s1 = "s\<lparr>debugProcess := None, d_procs := AList.update h (p\<lparr>d_waiting := None\<rparr>) (d_procs s)\<rparr>"
  note cnt = count_update [OF Some, of ?W "p\<lparr>d_waiting := None\<rparr>"]
  note bound = keys_update_bound [OF Some, of "next_id s" "p\<lparr>d_waiting := None\<rparr>"]
  note keys = keys_update [OF Some, of "p\<lparr>d_waiting := None\<rparr>"]
  show "debug_inv (d_onError h e s)"
  proof (cases "d_waiting p")
    case None
    with cnt inv bound keys have "debug_inv ?s1"
      by (simp add: debug_inv_def d_inflight_def)
    with Some None show ?thesis by (simp add: d_onError_def Let_def)
  next
    case (Some k)
    from inv have "length ([] :: unit list) + length (filter ?W (d_procs s)) =
        (if isDebugging s then 1 else 0)"
      by (simp add: debug_inv_def d_inflight_def)
    moreover from cnt Some have
      "length (filter ?W (AList.update h (p\<lparr>d_waiting := None\<rparr>) (d_procs s))) + 1 =
       length (filter ?W (d_procs s))" by simp
    ultimately have "isDebugging s \<and> ([] :: unit list) = [] \<and>
        filter ?W (AList.update h (p\<lparr>d_waiting := None\<rparr>) (d_procs s)) = []"
      by (rule last_one_leaves)
    with inv bound keys have "d_running ?s1"
      by (simp add: debug_inv_def d_running_def d_inflight_def)
    with \<open>map_of (d_procs s) h = Some p\<close> Some show ?thesis
      by (simp add: d_onError_def Let_def d_running_debug_catch)
  qed
qed

lemma debug_inv_env [simp]:
  "debug_inv (s\<lparr>now := n\<rparr>) = debug_inv s" "debug_inv (s\<lparr>files := f\<rparr>) = debug_inv s"
  by (simp_all add: debug_inv_def d_inflight_def)

lemma debug_inv_build_side:
  assumes "debug_inv s"
  shows "debug_inv (cleanSolution s)" "debug_inv (regenerateSolution s)"
    "debug_inv (generateSolution s)" "debug_inv (cancelBuild s)" "debug_inv (onRmSettled h r s)"
    "debug_inv (b_onStdout h t s)" "debug_inv (b_onStderr h t s)" "debug_inv (b_onClose h c s)"
    "debug_inv (b_onError h e s)" "debug_inv (updateConfig p s)"
  using assms d_untouched_build_step [of s] b_untouched_debug_step(10) [of s]
  by (blast intro: debug_inv_untouched)+

lemma build_inv_debug_side:
  assumes "build_inv s"
  shows "build_inv (startDebug s)" "build_inv (startWithoutDebug s)" "build_inv (launchProject s)"
    "build_inv (cancelDebug s)" "build_inv (d_onStdout h t s)" "build_inv (d_onStderr h t s)"
    "build_inv (d_onClose h c s)" "build_inv (d_onError h e s)" "build_inv (updateConfig p s)"
  using assms b_untouched_debug_step [of s]
  by (blast intro: build_inv_untouched)+

lemma debug_inv_step: "debug_inv s \<Longrightarrow> e \<noteq> CancelDebug \<Longrightarrow> debug_inv (step e s)"
  by (cases e)
     (simp_all add: debug_inv_requests debug_inv_output debug_inv_onClose debug_inv_onError
        debug_inv_build_side)

lemma build_inv_step: "build_inv s \<Longrightarrow> e \<noteq> CancelBuild \<Longrightarrow> build_inv (step e s)"
  by (cases e)
     (simp_all add: build_inv_requests build_inv_onRmSettled build_inv_output build_inv_onClose
        build_inv_onError build_inv_debug_side)

lemma reachable_invariants: "reachable_without_cancel s \<Longrightarrow> build_inv s \<and> debug_inv s"
proof (induction rule: reachable_without_cancel.induct)
  case (start s)
  then show ?case
    by (simp add: initial_def build_inv_def debug_inv_def b_inflight_def d_inflight_def)
next
  case (after s e)
  then show ?case by (simp add: build_inv_step debug_inv_step)
qed

text \<open>
  Claim C3, as the specification states it, fails for \<open>launchProject\<close>:
  requested while \<open>startDebug\<close> is running, it is not rejected but starts the
  engine.
\<close>

theorem launchProject_while_debugging:
  "isDebugging (step StartDebug example_state) \<and>
   trace (step LaunchProject (step StartDebug example_state)) =
     trace (step StartDebug example_state) @
     [ExecLaunch (launch_command (uePath example_config) (projectPath example_config)) (win ''C:/Proj''),
      ShowInformationMessage ProjectLaunched]"
  by code_simp

text \<open>
  Claim C3, amended. While the flag of \<open>BuildManager\<close> is set,
  \<open>cleanSolution\<close>, \<open>regenerateSolution\<close> and \<open>generateSolution\<close> only show
  the warning that an operation is in progress; while the flag of
  \<open>DebugManager\<close> is set, so do \<open>startDebug\<close> and \<open>startWithoutDebug\<close>:
  nothing is queued and the state of the manager is as before.
  \<open>launchProject\<close> has no such check, and never changes the flag, the process
  handle or the child processes of either manager. In every state reached
  without a cancel request, each manager has exactly one operation in flight
  when its flag is set and none otherwise.
\<close>

theorem busy_operations_rejected:
  "(isBuilding s \<longrightarrow>
      step CleanSolution s = busy s \<and> step RegenerateSolution s = busy s \<and>
      step GenerateSolution s = busy s) \<and>
   (isDebugging s \<longrightarrow> step StartDebug s = busy s \<and> step StartWithoutDebug s = busy s) \<and>
   isDebugging (step LaunchProject s) = isDebugging s \<and>
   debugProcess (step LaunchProject s) = debugProcess s \<and>
   d_procs (step LaunchProject s) = d_procs s \<and>
   b_untouched s (step LaunchProject s) \<and>
   (reachable_without_cancel s \<longrightarrow>
      b_inflight s = (if isBuilding s then 1 else 0) \<and>
      d_inflight s = (if isDebugging s then 1 else 0))"
proof -
  have "reachable_without_cancel s \<longrightarrow>
      b_inflight s = (if isBuilding s then 1 else 0) \<and>
      d_inflight s = (if isDebugging s then 1 else 0)"
    using reachable_invariants [of s] by (simp add: build_inv_def debug_inv_def)
  moreover have "isDebugging (step LaunchProject s) = isDebugging s \<and>
      debugProcess (step LaunchProject s) = debugProcess s \<and>
      d_procs (step LaunchProject s) = d_procs s"
    by (simp add: launchProject_def effect_def Let_def)
  ultimately show ?thesis
    by (simp add: busy_def cleanSolution_def regenerateSolution_def generateSolution_def
        startDebug_def startWithoutDebug_def start_with_build_def effect_def
        b_untouched_debug_step(3))
qed

text \<open>
  On the example: \<open>cleanSolution\<close> awaits the removal of \<open>Intermediate\<close> and
  \<open>startDebug\<close> awaits the build.
\<close>

theorem busy_operations_rejected_witness:
  "isBuilding (run [CleanSolution, StartDebug] example_state) \<and>
   isDebugging (run [CleanSolution, StartDebug] example_state) \<and>
   step RegenerateSolution (run [CleanSolution, StartDebug] example_state) =
     busy (run [CleanSolution, StartDebug] example_state) \<and>
   step StartWithoutDebug (run [CleanSolution, StartDebug] example_state) =
     busy (run [CleanSolution, StartDebug] example_state) \<and>
   b_inflight (run [CleanSolution, StartDebug] example_state) = 1 \<and>
   d_inflight (run [CleanSolution, StartDebug] example_state) = 1"
proof -
  let ?s = "run [CleanSolution, StartDebug] example_state"
  have "initial example_state" by (simp add: initial_def example_state_def)
  then have "reachable_without_cancel example_state" by (rule reachable_without_cancel.start)
  then have "reachable_without_cancel (step CleanSolution example_state)"
    by (rule reachable_without_cancel.after) simp_all
  then have "reachable_without_cancel (step StartDebug (step CleanSolution example_state))"
    by (rule reachable_without_cancel.after) simp_all
  then have r: "reachable_without_cancel ?s" by simp
  have f: "isBuilding ?s" "isDebugging ?s" by code_simp+
  from busy_operations_rejected [of ?s] r f show ?thesis by simp
qed

section \<open>Cancelling during a clean\<close>

lemma clean_running_trace [simp]:
  "clean_running (b_postMessage m s) = clean_running s"
  "clean_running (effect a s) = clean_running s"
  by (simp_all add: clean_running_def b_postMessage_alt effect_def)

lemma clean_running_rm: "clean_running s \<Longrightarrow> is_clean_cont k \<Longrightarrow> clean_awaiting (rm p k s)"
  by (simp add: clean_running_def clean_awaiting_def rm_def effect_def Let_def)

lemma clean_running_done: "clean_running s \<Longrightarrow> clean_ended (cleanSolution_done s)"
  by (simp add: clean_running_def clean_ended_def cleanSolution_done_def effect_def
      b_postMessage_alt Let_def)

lemma clean_running_catch: "clean_running s \<Longrightarrow> clean_ended (clean_catch e s)"
  by (simp add: clean_running_def clean_ended_def clean_catch_def effect_def
      b_postMessage_alt Let_def)

lemma clean_running_staged:
  "clean_running s \<Longrightarrow> clean_awaiting (cleanSolution_staged d s) \<or> clean_ended (cleanSolution_staged d s)"
  by (simp add: cleanSolution_staged_def Let_def clean_running_rm clean_running_done)

lemma clean_running_binaries:
  "clean_running s \<Longrightarrow> clean_awaiting (cleanSolution_binaries d s) \<or> clean_ended (cleanSolution_binaries d s)"
  by (simp add: cleanSolution_binaries_def Let_def clean_running_rm clean_running_staged)

lemma clean_running_intermediate:
  "clean_running s \<Longrightarrow>
     clean_awaiting (cleanSolution_intermediate d s) \<or> clean_ended (cleanSolution_intermediate d s)"
  by (simp add: cleanSolution_intermediate_def Let_def clean_running_rm clean_running_binaries)

lemma clean_awaiting_not_ended: "clean_pending s \<Longrightarrow> \<not> clean_ended s"
  by (auto simp: clean_pending_def clean_ended_def)

lemma clean_begun:
  assumes "b_idle s" and "clean_pending (cleanSolution s)"
  shows "clean_awaiting (cleanSolution s)"
proof -
  from assms(1) have idle: "\<not> isBuilding s" "buildProcess s = None" "b_rms s = []"
    "list_all (\<lambda>x. b_waiting (snd x) = None) (b_procs s)"
    by (auto simp: b_idle_def b_inflight_def list_all_iff filter_empty_conv)
  show ?thesis
  proof (cases "valid (validateConfig (files s) (config s))")
    case False
    with idle assms(2) show ?thesis
      by (simp add: cleanSolution_def clean_pending_def effect_def)
  next
    case True
    let ?s1 = "b_postMessage BuildStarted (s\<lparr>isBuilding := True\<rparr>)"
    from idle have "clean_running ?s1" by (simp add: clean_running_def b_postMessage_alt)
    from clean_running_intermediate [OF this, of "getProjectDir (config s)"] True idle assms(2)
    show ?thesis
      by (auto simp: cleanSolution_def Let_def dest: clean_awaiting_not_ended)
  qed
qed

lemma clean_awaiting_untouched: "clean_awaiting s \<Longrightarrow> b_untouched s s' \<Longrightarrow> clean_awaiting s'"
  by (simp add: clean_awaiting_def b_untouched_def)

lemma all_settled_update:
  "list_all (\<lambda>x. b_waiting (snd x) = None) xs \<Longrightarrow> b_waiting p = None \<Longrightarrow>
     list_all (\<lambda>x. b_waiting (snd x) = None) (AList.update h p xs)"
  by (induction xs) auto

lemma all_settled_delete:
  "list_all (\<lambda>x. b_waiting (snd x) = None) xs \<Longrightarrow>
     list_all (\<lambda>x. b_waiting (snd x) = None) (AList.delete h xs)"
  by (induction xs) auto

lemma all_settled_lookup:
  "list_all (\<lambda>x. b_waiting (snd x) = None) xs \<Longrightarrow> map_of xs h = Some p \<Longrightarrow> b_waiting p = None"
  by (induction xs) (auto split: if_splits)

lemma clean_awaiting_requests:
  assumes "clean_awaiting s"
  shows "cleanSolution s = busy s" "regenerateSolution s = busy s" "generateSolution s = busy s"
    "cancelBuild s = s" "clean_awaiting (busy s)"
  using assms
  by (simp_all add: clean_awaiting_def cleanSolution_def regenerateSolution_def
      generateSolution_def cancelBuild_def busy_def effect_def)

lemma clean_awaiting_procs:
  "clean_awaiting s \<Longrightarrow> list_all (\<lambda>x. b_waiting (snd x) = None) ps \<Longrightarrow>
     clean_awaiting (s\<lparr>b_procs := ps\<rparr>)"
  "clean_awaiting s \<Longrightarrow> list_all (\<lambda>x. b_waiting (snd x) = None) ps \<Longrightarrow>
     clean_awaiting (s\<lparr>buildProcess := None, b_procs := ps\<rparr>)"
  by (auto simp: clean_awaiting_def)

lemma clean_awaiting_frame [simp]:
  "clean_awaiting (b_postMessage m s) = clean_awaiting s"
  "clean_awaiting (s\<lparr>now := n\<rparr>) = clean_awaiting s"
  "clean_awaiting (s\<lparr>files := fs\<rparr>) = clean_awaiting s"
  by (auto simp: clean_awaiting_def b_postMessage_alt)

lemma clean_awaiting_output:
  assumes "clean_awaiting s"
  shows "clean_awaiting (b_onStdout h t s)" "clean_awaiting (b_onStderr h t s)"
    "clean_awaiting (b_onClose h c s)" "clean_awaiting (b_onError h e s)"
proof -
  from assms have all: "list_all (\<lambda>x. b_waiting (snd x) = None) (b_procs s)"
    by (simp add: clean_awaiting_def)
  have w: "b_waiting p = None" if "map_of (b_procs s) h = Some p" for p
    using all_settled_lookup [OF all that] .
  have upd: "clean_awaiting (s\<lparr>b_procs := AList.update h p' (b_procs s)\<rparr>)"
    "clean_awaiting (s\<lparr>buildProcess := None, b_procs := AList.update h p' (b_procs s)\<rparr>)"
    if "b_waiting p' = None" for p'
    using assms all_settled_update [OF all that] by (simp_all add: clean_awaiting_procs)
  have del: "clean_awaiting (s\<lparr>buildProcess := None, b_procs := AList.delete h (b_procs s)\<rparr>)"
    using assms all_settled_delete [OF all, of h] by (simp add: clean_awaiting_procs)
  show "clean_awaiting (b_onStdout h t s)"
    using assms w
    by (auto simp: b_onStdout_def Let_def upd split: option.splits)
  show "clean_awaiting (b_onStderr h t s)"
    using assms w
    by (auto simp: b_onStderr_def Let_def upd split: option.splits)
  show "clean_awaiting (b_onClose h c s)"
    using assms w del
    by (auto simp: b_onClose_def Let_def split: option.splits)
  show "clean_awaiting (b_onError h e s)"
    using assms w
    by (auto simp: b_onError_def Let_def upd split: option.splits)
qed

lemma clean_awaiting_settled:
  assumes "clean_awaiting s"
  shows "clean_awaiting (onRmSettled h r s) \<or> clean_ended (onRmSettled h r s)"
proof -
  from assms obtain h0 dir k where b: "b_rms s = [(h0, dir, k)]" "is_clean_cont k"
    and f: "isBuilding s" "buildProcess s = None" "list_all (\<lambda>x. b_waiting (snd x) = None) (b_procs s)"
    by (auto simp: clean_awaiting_def)
  show ?thesis
  proof (cases "h = h0")
    case False
    with b assms show ?thesis by (simp add: onRmSettled_def)
  next
    case True
    have run: "clean_running (s\<lparr>b_rms := [], files := fs\<rparr>)" "clean_running (s\<lparr>b_rms := []\<rparr>)" for fs
      using f by (simp_all add: clean_running_def)
    show ?thesis
      using True b run
      by (cases k; cases r)
         (simp_all add: onRmSettled_def Let_def clean_running_catch clean_running_binaries
            clean_running_staged clean_running_done)
  qed
qed

lemma clean_awaiting_step:
  "clean_awaiting s \<Longrightarrow> clean_awaiting (step e s) \<or> clean_ended (step e s)"
proof (cases e)
  case (RmSettled h r)
  then show "clean_awaiting s \<Longrightarrow> clean_awaiting (step e s) \<or> clean_ended (step e s)"
    by (simp add: clean_awaiting_settled)
qed (auto simp: clean_awaiting_requests clean_awaiting_output
       intro: clean_awaiting_untouched [OF _ b_untouched_debug_step(1)]
         clean_awaiting_untouched [OF _ b_untouched_debug_step(2)]
         clean_awaiting_untouched [OF _ b_untouched_debug_step(3)]
         clean_awaiting_untouched [OF _ b_untouched_debug_step(4)]
         clean_awaiting_untouched [OF _ b_untouched_debug_step(5)]
         clean_awaiting_untouched [OF _ b_untouched_debug_step(6)]
         clean_awaiting_untouched [OF _ b_untouched_debug_step(7)]
         clean_awaiting_untouched [OF _ b_untouched_debug_step(8)]
         clean_awaiting_untouched [OF _ b_untouched_debug_step(9)]
       )

lemma clean_in_flight_awaiting: "clean_in_flight s \<Longrightarrow> clean_awaiting s"
proof (induction rule: clean_in_flight.induct)
  case (begun s)
  then show ?case by (rule clean_begun)
next
  case (still s e)
  from clean_awaiting_step [OF still.IH, of e] clean_awaiting_not_ended [OF still.hyps(2)]
  show ?case by blast
qed

lemma clean_awaiting_pending: "clean_awaiting s \<Longrightarrow> clean_pending s"
  by (auto simp: clean_awaiting_def clean_pending_def)

text \<open>
  A clean begun while nothing of the manager is in flight and no process
  handle is set: throughout its run the process handle is unset, so
  \<open>cancelBuild\<close> changes nothing: the flag stays set and the removal stays
  pending. When the removal settles, the clean goes on to its next removal or
  ends, by its own completion or failure.
\<close>

theorem clean_cannot_be_cancelled:
  assumes "clean_in_flight s"
  shows "isBuilding s \<and> buildProcess s = None \<and> step CancelBuild s = s \<and>
         (\<exists>h dir k. b_rms s = [(h, dir, k)] \<and> is_clean_cont k \<and>
            (\<forall>r. clean_in_flight (step (RmSettled h r) s) \<or> clean_ended (step (RmSettled h r) s)))"
proof -
  from assms have a: "clean_awaiting s" by (rule clean_in_flight_awaiting)
  then obtain h dir k where b: "b_rms s = [(h, dir, k)]" "is_clean_cont k"
    by (auto simp: clean_awaiting_def)
  have "clean_in_flight (step (RmSettled h r) s) \<or> clean_ended (step (RmSettled h r) s)" for r
  proof (cases "clean_ended (step (RmSettled h r) s)")
    case True
    then show ?thesis by simp
  next
    case False
    with clean_awaiting_settled [OF a, of h r] have "clean_awaiting (step (RmSettled h r) s)" by simp
    then have "clean_pending (step (RmSettled h r) s)" by (rule clean_awaiting_pending)
    with assms have "clean_in_flight (step (RmSettled h r) s)" by (rule clean_in_flight.still)
    then show ?thesis by simp
  qed
  with a b show ?thesis
    by (simp add: clean_awaiting_requests(4) clean_awaiting_def)
qed

text \<open>
  On the example, where the \<open>Intermediate\<close> directory exists.
\<close>

theorem clean_cannot_be_cancelled_witness:
  "isBuilding (step CleanSolution example_state) \<and>
   buildProcess (step CleanSolution example_state) = None \<and>
   run [CleanSolution, CancelBuild] example_state = run [CleanSolution] example_state \<and>
   b_rms (step CleanSolution example_state) =
     [(0, win ''C:/Proj/Intermediate'', CleanIntermediateK (win ''C:/Proj''))]"
proof -
  have idle: "b_idle example_state"
    by (simp add: b_idle_def b_inflight_def example_state_def)
  have rms: "b_rms (step CleanSolution example_state) =
     [(0, win ''C:/Proj/Intermediate'', CleanIntermediateK (win ''C:/Proj''))]"
    by code_simp
  then have "clean_pending (cleanSolution example_state)"
    by (simp add: clean_pending_def)
  with idle have "clean_in_flight (cleanSolution example_state)" by (rule clean_in_flight.begun)
  from clean_cannot_be_cancelled [OF this] rms show ?thesis by simp
qed

text \<open>
  Claim C10 on the example. \<open>generateSolution\<close> is cancelled while its script
  runs: the flag is cleared, the promise of the script stays pending. A clean
  is accepted and awaits the removal of \<open>Intermediate\<close>. The killed script closes
  with code 1: the \<open>catch\<close> block of the cancelled \<open>generateSolution\<close> clears
  the flag of the clean. A second \<open>generateSolution\<close> is accepted and sets the
  process handle while the removal of the clean is still pending. There
  \<open>cancelBuild\<close> is not a no-op: it kills that process, clears the flag and posts
  \<open>buildCancelled\<close>; the removal stays pending.
\<close>

theorem cancelBuild_during_clean_kills_other_run:
  "b_rms (run [GenerateSolution, CancelBuild, CleanSolution, Close 0 (Some 1), GenerateSolution]
            example_state) =
     [(1, win ''C:/Proj/Intermediate'', CleanIntermediateK (win ''C:/Proj''))] \<and>
   isBuilding (run [GenerateSolution, CancelBuild, CleanSolution, Close 0 (Some 1), GenerateSolution]
                 example_state) \<and>
   buildProcess (run [GenerateSolution, CancelBuild, CleanSolution, Close 0 (Some 1), GenerateSolution]
                   example_state) = Some 2 \<and>
   \<not> isBuilding (run [GenerateSolution, CancelBuild, CleanSolution, Close 0 (Some 1),
                      GenerateSolution, CancelBuild] example_state) \<and>
   trace (run [GenerateSolution, CancelBuild, CleanSolution, Close 0 (Some 1),
               GenerateSolution, CancelBuild] example_state) =
     trace (run [GenerateSolution, CancelBuild, CleanSolution, Close 0 (Some 1), GenerateSolution]
              example_state) @
     [Taskkill 2, PostMessage BuildCancelled, ShowInformationMessage OperationCancelled] \<and>
   b_rms (run [GenerateSolution, CancelBuild, CleanSolution, Close 0 (Some 1),
               GenerateSolution, CancelBuild] example_state) =
     [(1, win ''C:/Proj/Intermediate'', CleanIntermediateK (win ''C:/Proj''))]"
  by code_simp

section \<open>The sequence of regenerateSolution\<close>

lemma story_append [simp]: "story (xs @ ys) = story xs @ story ys"
  by (simp add: story_def)

lemma story_Nil [simp]: "story [] = []"
  by (simp add: story_def)

lemma story_Cons [simp]: "story (a # acts) = story_of a @ story acts"
  by (simp add: story_def)

lemma story_child_start [simp]:
  "story_of (child_start exe args cwd h) = [Did (runs_script exe args)]"
  by (simp add: child_start_def runs_script_def)

lemma dids_simps [simp]:
  "dids [] = []" "dids (xs @ ys) = dids xs @ dids ys" "dids (map Did m) = m"
  "dids [Failed] = []" "dids [Succeeded] = []"
  by (simp_all add: dids_def) (induction m; simp)

lemma among_first_0 [simp]: "among_first 0 pl []"
  by (simp add: among_first_def)





lemma plan_length [simp]: "length (regenerate_plan cfg) = 6"
  by (simp add: regenerate_plan_def)




lemma told_frame [simp]:
  "told s0 (b_postMessage x s) w = told s0 s w"
  "told s0 (s\<lparr>isBuilding := b\<rparr>) w = told s0 s w"
  "told s0 (s\<lparr>buildProcess := bp\<rparr>) w = told s0 s w"
  "told s0 (s\<lparr>b_rms := r\<rparr>) w = told s0 s w"
  "told s0 (s\<lparr>b_procs := ps\<rparr>) w = told s0 s w"
  "told s0 (s\<lparr>files := fs\<rparr>) w = told s0 s w"
  "told s0 (s\<lparr>now := n\<rparr>) w = told s0 s w"
  "told s0 (s\<lparr>next_id := i\<rparr>) w = told s0 s w"
  by (simp_all add: told_def b_postMessage_alt)

lemma told_effect:
  "told s0 s w \<Longrightarrow> told s0 (effect a s) (w @ story_of a)"
  by (simp add: told_def effect_def)

lemma regen_running_frame [simp]:
  "regen_running s0 m (b_postMessage x s) = regen_running s0 m s"
  "regen_running s0 m (s\<lparr>files := fs\<rparr>) = regen_running s0 m s"
  by (simp_all add: regen_running_def b_postMessage_alt told_def)


















lemmas regen_phase_defs = regen_awaiting_rm_def regen_awaiting_script_def regen_succeeded_def
  regen_failed_def

lemma regen_state_frame:
  assumes "config s' = config s" and "story (trace s') = story (trace s)"
    and "isBuilding s' = isBuilding s" and "b_rms s' = b_rms s" and "b_procs s' = b_procs s"
  shows "regen_state s0 s' = regen_state s0 s"
  by (simp add: regen_state_def regen_phase_defs told_def assms)

lemma regen_state_prims [simp]:
  "regen_state s0 (b_postMessage x s) = regen_state s0 s"
  "regen_state s0 (s\<lparr>buildProcess := bp\<rparr>) = regen_state s0 s"
  "regen_state s0 (s\<lparr>files := fs\<rparr>) = regen_state s0 s"
  "regen_state s0 (s\<lparr>now := n\<rparr>) = regen_state s0 s"
  by (rule regen_state_frame; simp add: b_postMessage_alt)+


























lemma Failed_not_Did [simp]: "Failed \<notin> Did ` A" "Succeeded \<notin> Did ` A"
  by auto




lemma sim_common_frame [simp]:
  "sim_common s0 r (b_postMessage x s) = sim_common s0 r s"
  "sim_common s0 r (s\<lparr>isBuilding := b\<rparr>) = sim_common s0 r s"
  "sim_common s0 r (s\<lparr>buildProcess := bp\<rparr>) = sim_common s0 r s"
  "sim_common s0 r (s\<lparr>b_rms := rms\<rparr>) = sim_common s0 r s"
  "sim_common s0 r (s\<lparr>b_procs := ps\<rparr>) = sim_common s0 r s"
  "sim_common s0 r (s\<lparr>now := n\<rparr>) = sim_common s0 r s"
  by (simp_all add: sim_common_def b_postMessage_alt)

lemma sim_running_frame [simp]:
  "sim_running s0 r (b_postMessage x s) = sim_running s0 r s"
  "sim_running s0 r (s\<lparr>isBuilding := b\<rparr>) = sim_running s0 r s"
  "sim_running s0 r (s\<lparr>buildProcess := bp\<rparr>) = sim_running s0 r s"
  by (simp_all add: sim_running_def sim_common_def b_postMessage_alt)
















lemma sim_frame:
  assumes "config s' = config s" and "unlink_errors s' = unlink_errors s"
    and "story (trace s') = story (trace s)" and "files s' = files s" and "next_id s' = next_id s"
    and "b_rms s' = b_rms s" and "b_procs s' = b_procs s"
  shows "sim s0 r s' = sim s0 r s"
  by (simp add: sim_def sim_common_def assms split: awaited.split)

lemma sim_prims [simp]:
  "sim s0 r (b_postMessage x s) = sim s0 r s"
  "sim s0 r (s\<lparr>buildProcess := bp\<rparr>) = sim s0 r s"
  "sim s0 r (s\<lparr>now := n\<rparr>) = sim s0 r s"
  by (rule sim_frame; simp add: b_postMessage_alt)+




















end
